theory Spec2Isabelle
  imports Complex_Main "HOL-Library.Monad_Syntax"
begin

section \<open>Tensors\<close>

text \<open>
  \<^verbatim>\<open>generative/normalizing_flow.py\<close> computes with dense TensorFlow tensors. A tensor is
  modelled by its shape and its entries in row-major order. Entries are mathematical
  reals: the rounding, overflow and NaN of \<^verbatim>\<open>tf.float64\<close> are outside this model. An
  operation that TensorFlow rejects (incompatible shapes, an axis or a slice out of
  range) returns \<open>None\<close>. Dimensions, axes, numbers of layers and numbers of samples
  are natural numbers; the sizes given to \<^verbatim>\<open>tf.slice\<close> are integers, since \<open>-1\<close> has a
  meaning there.
\<close>

datatype tensor = Tensor (shape: "nat list") (data: "real list")

fun indices :: "nat list \<Rightarrow> nat list list" where
  "indices [] = [Nil]"
| "indices (n # s) = concat (map (\<lambda>i. map ((#) i) (indices s)) [0..<n])"

fun flat_index :: "nat list \<Rightarrow> nat list \<Rightarrow> nat" where
  "flat_index (n # s) (i # idx) = i * prod_list s + flat_index s idx"
| "flat_index s idx = 0"

definition valid_index :: "nat list \<Rightarrow> nat list \<Rightarrow> bool" where
  "valid_index s idx = list_all2 (<) idx s"

definition mk_tensor :: "nat list \<Rightarrow> (nat list \<Rightarrow> real) \<Rightarrow> tensor" where
  "mk_tensor s f = Tensor s (map f (indices s))"

definition elem :: "tensor \<Rightarrow> nat list \<Rightarrow> real" where
  "elem t idx = data t ! flat_index (shape t) idx"

definition rank :: "tensor \<Rightarrow> nat" where
  "rank t = length (shape t)"

text \<open>A Python float used as an operand is a tensor of shape \<open>[]\<close>.\<close>

definition scalar :: "real \<Rightarrow> tensor" where
  "scalar c = mk_tensor [] (\<lambda>idx. c)"

subsection \<open>Element-wise operations\<close>

definition tf_map :: "(real \<Rightarrow> real) \<Rightarrow> tensor \<Rightarrow> tensor" where
  "tf_map f t = mk_tensor (shape t) (\<lambda>idx. f (elem t idx))"

definition softplus :: "real \<Rightarrow> real" where
  "softplus x = ln (1 + exp x)"

definition tf_softplus :: "tensor \<Rightarrow> tensor" where
  "tf_softplus = tf_map softplus"

definition tf_tanh :: "tensor \<Rightarrow> tensor" where
  "tf_tanh = tf_map tanh"

definition tf_log :: "tensor \<Rightarrow> tensor" where
  "tf_log = tf_map ln"

definition tf_abs :: "tensor \<Rightarrow> tensor" where
  "tf_abs = tf_map abs"

definition tf_neg :: "tensor \<Rightarrow> tensor" where
  "tf_neg = tf_map uminus"

definition tf_pow :: "tensor \<Rightarrow> nat \<Rightarrow> tensor" where
  "tf_pow t k = tf_map (\<lambda>x. x ^ k) t"

text \<open>
  Broadcasting aligns the two shapes at their last axis; an axis of size 1 is stretched
  to the other operand's size, and any other disagreement is an error.
\<close>

fun broadcast_rev :: "nat list \<Rightarrow> nat list \<Rightarrow> nat list option" where
  "broadcast_rev [] ys = Some ys"
| "broadcast_rev (x # xs) [] = Some (x # xs)"
| "broadcast_rev (x # xs) (y # ys) =
     (if x = y \<or> y = 1 then map_option ((#) x) (broadcast_rev xs ys)
      else if x = 1 then map_option ((#) y) (broadcast_rev xs ys)
      else None)"

definition broadcast_shape :: "nat list \<Rightarrow> nat list \<Rightarrow> nat list option" where
  "broadcast_shape s1 s2 = map_option rev (broadcast_rev (rev s1) (rev s2))"

text \<open>The index into an operand of shape \<open>s\<close> that the result index \<open>idx\<close> reads.\<close>

definition bidx :: "nat list \<Rightarrow> nat list \<Rightarrow> nat list" where
  "bidx s idx = map2 (\<lambda>d i. if d = 1 then 0 else i) s (drop (length idx - length s) idx)"

definition broadcast_op :: "(real \<Rightarrow> real \<Rightarrow> real) \<Rightarrow> tensor \<Rightarrow> tensor \<Rightarrow> tensor option" where
  "broadcast_op f x y =
     (case broadcast_shape (shape x) (shape y) of
        None \<Rightarrow> None
      | Some s \<Rightarrow> Some (mk_tensor s (\<lambda>idx. f (elem x (bidx (shape x) idx)) (elem y (bidx (shape y) idx)))))"

definition tf_add :: "tensor \<Rightarrow> tensor \<Rightarrow> tensor option" where
  "tf_add = broadcast_op (+)"

definition tf_sub :: "tensor \<Rightarrow> tensor \<Rightarrow> tensor option" where
  "tf_sub = broadcast_op (-)"

definition tf_mul :: "tensor \<Rightarrow> tensor \<Rightarrow> tensor option" where
  "tf_mul = broadcast_op (*)"

text \<open>
  Division of float tensors raises nothing when the divisor has a zero entry (TensorFlow
  yields an infinity or NaN there, which the real-valued entries cannot show); only the
  shapes can make it fail.
\<close>

definition tf_div :: "tensor \<Rightarrow> tensor \<Rightarrow> tensor option" where
  "tf_div = broadcast_op (/)"

subsection \<open>Reductions, products and reshaping\<close>

definition tf_reduce_sum :: "tensor \<Rightarrow> nat \<Rightarrow> bool \<Rightarrow> tensor option" where
  "tf_reduce_sum t axis keepdims =
     (let s = shape t in
      if length s \<le> axis then None
      else Some (mk_tensor
        (if keepdims then s[axis := 1] else take axis s @ drop (Suc axis) s)
        (\<lambda>idx. \<Sum>k\<leftarrow>[0..<s ! axis].
           elem t (if keepdims then idx[axis := k] else take axis idx @ k # drop axis idx))))"

text \<open>
  \<^verbatim>\<open>tf.matmul\<close> multiplies the matrices in the last two axes; the leading (batch) axes of
  the two operands must be equal.
\<close>

definition tf_matmul :: "tensor \<Rightarrow> tensor \<Rightarrow> bool \<Rightarrow> tensor option" where
  "tf_matmul x y transpose_b =
     (let sx = shape x; sy = shape y; r = length sx in
      if r < 2 \<or> length sy \<noteq> r then None
      else
        let batch = take (r - 2) sx;
            m = sx ! (r - 2);
            k = sx ! (r - 1);
            ky = sy ! (if transpose_b then r - 1 else r - 2);
            n = sy ! (if transpose_b then r - 2 else r - 1)
        in if take (r - 2) sy \<noteq> batch \<or> ky \<noteq> k then None
           else Some (mk_tensor (batch @ [m, n])
             (\<lambda>idx. let bi = take (r - 2) idx; i = idx ! (r - 2); j = idx ! (r - 1)
                    in \<Sum>l\<leftarrow>[0..<k]. elem x (bi @ [i, l]) *
                         elem y (bi @ (if transpose_b then [j, l] else [l, j])))))"

definition tf_expand_dims :: "tensor \<Rightarrow> nat \<Rightarrow> tensor option" where
  "tf_expand_dims t axis =
     (let s = shape t in
      if length s < axis then None
      else Some (mk_tensor (take axis s @ 1 # drop axis s)
                   (\<lambda>idx. elem t (take axis idx @ drop (Suc axis) idx))))"

text \<open>
  \<^verbatim>\<open>tf.squeeze\<close> without an axis argument removes every axis of size 1.
  \<open>unsqueeze_index s idx\<close> is the index of the unsqueezed tensor that the index \<open>idx\<close> of
  the squeezed one stands for.
\<close>

fun unsqueeze_index :: "nat list \<Rightarrow> nat list \<Rightarrow> nat list" where
  "unsqueeze_index [] idx = []"
| "unsqueeze_index (d # s) idx =
     (if d = 1 then 0 # unsqueeze_index s idx
      else (case idx of [] \<Rightarrow> [] | i # idx' \<Rightarrow> i # unsqueeze_index s idx'))"

definition squeeze_shape :: "nat list \<Rightarrow> nat list" where
  "squeeze_shape s = filter (\<lambda>d. d \<noteq> 1) s"

definition tf_squeeze :: "tensor \<Rightarrow> tensor" where
  "tf_squeeze t = mk_tensor (squeeze_shape (shape t)) (\<lambda>idx. elem t (unsqueeze_index (shape t) idx))"

text \<open>
  \<^verbatim>\<open>tf.slice(t, begin, size)\<close>: a size of \<open>-1\<close> takes every remaining entry of the axis.
\<close>

definition slice_dim :: "nat \<Rightarrow> nat \<Rightarrow> int \<Rightarrow> nat option" where
  "slice_dim d b sz =
     (if sz = - 1 then (if b \<le> d then Some (d - b) else None)
      else if sz < 0 then None
      else if b + nat sz \<le> d then Some (nat sz) else None)"

fun slice_shape :: "nat list \<Rightarrow> nat list \<Rightarrow> int list \<Rightarrow> nat list option" where
  "slice_shape [] [] [] = Some []"
| "slice_shape (d # s) (b # bs) (sz # szs) =
     (case slice_dim d b sz of
        None \<Rightarrow> None
      | Some n \<Rightarrow> map_option ((#) n) (slice_shape s bs szs))"
| "slice_shape s bs szs = None"

definition tf_slice :: "tensor \<Rightarrow> nat list \<Rightarrow> int list \<Rightarrow> tensor option" where
  "tf_slice t bgn sz =
     (case slice_shape (shape t) bgn sz of
        None \<Rightarrow> None
      | Some s \<Rightarrow> Some (mk_tensor s (\<lambda>idx. elem t (map2 (+) bgn idx))))"

text \<open>
  \<^verbatim>\<open>tf.concat(ts, axis)\<close>: the tensors agree on every axis but \<open>axis\<close>. \<open>locate ns k\<close>
  finds the piece that position \<open>k\<close> along the axis falls into, and the position inside
  that piece.
\<close>

fun locate :: "nat list \<Rightarrow> nat \<Rightarrow> nat \<times> nat" where
  "locate [] k = (0, k)"
| "locate (n # ns) k =
     (if k < n then (0, k) else (case locate ns (k - n) of (p, off) \<Rightarrow> (Suc p, off)))"

definition tf_concat :: "tensor list \<Rightarrow> nat \<Rightarrow> tensor option" where
  "tf_concat ts axis =
     (case ts of
        [] \<Rightarrow> None
      | t0 # _ \<Rightarrow>
          if length (shape t0) \<le> axis
             \<or> list_ex (\<lambda>t. (shape t)[axis := 0] \<noteq> (shape t0)[axis := 0]) ts
          then None
          else Some (mk_tensor ((shape t0)[axis := sum_list (map (\<lambda>t. shape t ! axis) ts)])
                 (\<lambda>idx. case locate (map (\<lambda>t. shape t ! axis) ts) (idx ! axis) of
                          (p, off) \<Rightarrow> elem (ts ! p) (idx[axis := off]))))"


section \<open>PlanarFlow\<close>

text \<open>
  \<^verbatim>\<open>np.random.normal\<close> reads the global generator. The generator is modelled as the
  stream of draws still to come; a call takes as many draws as the requested shape has
  entries and returns the rest of the stream.
\<close>

type_synonym rng = "nat \<Rightarrow> real"

definition np_random_normal :: "nat list \<Rightarrow> rng \<Rightarrow> tensor \<times> rng" where
  "np_random_normal s g =
     (mk_tensor s (\<lambda>idx. g (flat_index s idx)), \<lambda>k. g (k + prod_list s))"

text \<open>
  The constructor's \<^verbatim>\<open>dim\<close> argument is an integer by its documentation, but
  \<^verbatim>\<open>FlowConditionalVariable.set_up_flows\<close> passes a tensor there.
\<close>

datatype dim_arg = DimInt nat | DimTensor tensor

record PlanarFlow =
  pf_dim :: dim_arg
  pf_w :: tensor
  pf_b :: tensor
  pf_u :: tensor
  pf_u_bar :: tensor
  pf_n_flows :: nat

definition create_flow_variables :: "dim_arg \<Rightarrow> rng \<Rightarrow> ((tensor \<times> tensor \<times> tensor) \<times> rng) option" where
  "create_flow_variables dim_a g =
     (case dim_a of
        DimTensor t \<Rightarrow> None
      | DimInt d \<Rightarrow>
          (case np_random_normal [1, d] g of (w, g1) \<Rightarrow>
           case np_random_normal [1] g1 of (b, g2) \<Rightarrow>
           case np_random_normal [1, d] g2 of (u, g3) \<Rightarrow>
             Some ((w, b, u), g3)))"

definition reversible_constraint :: "tensor \<Rightarrow> tensor \<Rightarrow> tensor option" where
  "reversible_constraint w u = do {
     uw \<leftarrow> tf_mul u w;
     dot \<leftarrow> tf_reduce_sum uw 1 True;
     sp \<leftarrow> tf_add (scalar (- 1)) (tf_softplus dot);
     scalar_t \<leftarrow> tf_sub sp dot;
     ww \<leftarrow> tf_mul w w;
     norm_squared \<leftarrow> tf_reduce_sum ww 1 True;
     sw \<leftarrow> tf_mul scalar_t w;
     comp \<leftarrow> tf_div sw norm_squared;
     tf_add u comp
   }"

definition PlanarFlow_init ::
  "dim_arg \<Rightarrow> tensor option \<Rightarrow> tensor option \<Rightarrow> tensor option \<Rightarrow> rng \<Rightarrow> (PlanarFlow \<times> rng) option" where
  "PlanarFlow_init dim_a w b u g = do {
     ((w', b', u'), g') \<leftarrow>
        (case (w, b, u) of
           (Some w', Some b', Some u') \<Rightarrow> Some ((w', b', u'), g)
         | _ \<Rightarrow> create_flow_variables dim_a g);
     u_bar \<leftarrow> reversible_constraint w' u';
     n_flows \<leftarrow> (case shape u' of [] \<Rightarrow> None | n # s \<Rightarrow> Some n);
     Some (\<lparr>pf_dim = dim_a, pf_w = w', pf_b = b', pf_u = u', pf_u_bar = u_bar,
             pf_n_flows = n_flows\<rparr>, g')
   }"

definition get_flow_number :: "PlanarFlow \<Rightarrow> nat" where
  "get_flow_number self = pf_n_flows self"

definition is_single_flow :: "PlanarFlow \<Rightarrow> bool" where
  "is_single_flow self = (pf_n_flows self = 1)"

definition PlanarFlow_transform :: "PlanarFlow \<Rightarrow> tensor \<Rightarrow> tensor option" where
  "PlanarFlow_transform self inputs =
     (if is_single_flow self then do {
        xw \<leftarrow> tf_matmul inputs (pf_w self) True;
        dialation \<leftarrow> tf_add xw (pf_b self);
        ut \<leftarrow> tf_mul (pf_u_bar self) (tf_tanh dialation);
        tf_add inputs ut
      } else do {
        w2 \<leftarrow> tf_expand_dims (pf_w self) 2;
        xw \<leftarrow> tf_matmul inputs w2 False;
        b1 \<leftarrow> tf_expand_dims (pf_b self) 1;
        b2 \<leftarrow> tf_expand_dims b1 2;
        dialation \<leftarrow> tf_add xw b2;
        u1 \<leftarrow> tf_expand_dims (pf_u_bar self) 1;
        ut \<leftarrow> tf_mul u1 (tf_tanh dialation);
        tf_add inputs ut
      })"

definition log_det_jacobian :: "PlanarFlow \<Rightarrow> tensor \<Rightarrow> tensor option" where
  "log_det_jacobian self inputs =
     (if is_single_flow self then do {
        xw \<leftarrow> tf_matmul inputs (pf_w self) True;
        dialation \<leftarrow> tf_add xw (pf_b self);
        psi \<leftarrow> tf_sub (scalar 1) (tf_pow (tf_tanh dialation) 2);
        uw \<leftarrow> tf_matmul (pf_u_bar self) (pf_w self) True;
        det_jac \<leftarrow> tf_mul uw psi;
        d1 \<leftarrow> tf_add (scalar 1) det_jac;
        Some (tf_neg (tf_squeeze (tf_log (tf_abs d1))))
      } else do {
        w2 \<leftarrow> tf_expand_dims (pf_w self) 2;
        xw \<leftarrow> tf_matmul inputs w2 False;
        b1 \<leftarrow> tf_expand_dims (pf_b self) 1;
        b2 \<leftarrow> tf_expand_dims b1 2;
        dialation \<leftarrow> tf_add xw b2;
        psi \<leftarrow> tf_sub (scalar 1) (tf_pow (tf_tanh dialation) 2);
        uw \<leftarrow> tf_mul (pf_u_bar self) (pf_w self);
        dot \<leftarrow> tf_reduce_sum uw 1 True;
        dot1 \<leftarrow> tf_expand_dims dot 1;
        det_jac \<leftarrow> tf_mul dot1 psi;
        d1 \<leftarrow> tf_add (scalar 1) det_jac;
        Some (tf_neg (tf_squeeze (tf_log (tf_abs d1))))
      })"


text \<open>
  The shapes the constructor's documentation gives: \<open>w\<close> and \<open>u\<close> are \<open>(N, dim)\<close>, \<open>b\<close> is
  \<open>(N)\<close>; \<open>u_bar\<close> then has the shape of \<open>u\<close> and \<open>n_flows\<close> is \<open>N\<close>.
\<close>

definition flow_shapes :: "PlanarFlow \<Rightarrow> nat \<Rightarrow> nat \<Rightarrow> bool" where
  "flow_shapes pf n D \<longleftrightarrow>
     shape (pf_w pf) = [n, D] \<and> shape (pf_b pf) = [n] \<and> shape (pf_u pf) = [n, D] \<and>
     shape (pf_u_bar pf) = [n, D] \<and> pf_n_flows pf = n"

text \<open>
  The documented input layout is \<open>[?, dim]\<close> for a single flow and \<open>[n_flows, ?, dim]\<close>
  otherwise. \<open>in_flow n i idx\<close> is the index, in a tensor of that layout, of entry \<open>idx\<close>
  of the slice that belongs to flow \<open>i\<close>.
\<close>

definition input_shape :: "nat \<Rightarrow> nat list \<Rightarrow> nat list" where
  "input_shape n s = (if n = 1 then s else n # s)"

definition in_flow :: "nat \<Rightarrow> nat \<Rightarrow> nat list \<Rightarrow> nat list" where
  "in_flow n i idx = (if n = 1 then idx else i # idx)"

text \<open>The index in the result of \<^verbatim>\<open>tf.squeeze\<close> of the entry at \<open>idx\<close> of its argument of shape \<open>s\<close>.\<close>

definition squeeze_index :: "nat list \<Rightarrow> nat list \<Rightarrow> nat list" where
  "squeeze_index s idx = map snd (filter (\<lambda>(d, i). d \<noteq> 1) (zip s idx))"


section \<open>FlowRandomVariable\<close>

text \<open>
  The base distribution is either a \<^verbatim>\<open>tf.distributions.Distribution\<close>, of which the code
  uses \<^verbatim>\<open>sample\<close> and \<^verbatim>\<open>log_prob\<close>, or a pair \<^verbatim>\<open>(samples, log_prob)\<close>. The tensor a call of
  \<^verbatim>\<open>sample\<close> draws is given by a function of the requested sample shape.
\<close>

datatype base_dist =
    Distribution (dist_sample: "nat list \<Rightarrow> tensor option") (dist_log_prob: "tensor \<Rightarrow> tensor option")
  | Precomputed tensor tensor

definition np_zeros :: "nat list \<Rightarrow> tensor" where
  "np_zeros s = mk_tensor s (\<lambda>idx. 0)"

definition np_ones :: "nat list \<Rightarrow> tensor" where
  "np_ones s = mk_tensor s (\<lambda>idx. 1)"

text \<open>
  \<^verbatim>\<open>tf.distributions.Normal(loc, scale)\<close>: a sample of shape \<open>s\<close> has the shape \<open>s\<close> followed
  by the shape of \<open>loc\<close>; the stream \<open>g\<close> supplies its standard-normal draws.
\<close>

definition Normal :: "tensor \<Rightarrow> tensor \<Rightarrow> rng \<Rightarrow> base_dist" where
  "Normal loc scale g =
     Distribution
       (\<lambda>s. do {
          se \<leftarrow> tf_mul scale (fst (np_random_normal (s @ shape loc) g));
          tf_add loc se
        })
       (\<lambda>x. do {
          d \<leftarrow> tf_sub x loc;
          z \<leftarrow> tf_div d scale;
          broadcast_op (\<lambda>v sc. - (v ^ 2) / 2 - ln (sqrt (2 * pi)) - ln sc) z scale
        })"

record FlowRandomVariable =
  frv_dim :: nat
  frv_num_layers :: nat
  frv_base_dist :: base_dist
  frv_flows :: "PlanarFlow list"
  frv_num_layrs :: "nat option"

text \<open>\<^verbatim>\<open>for i in range(num_layers): flows.append(PlanarFlow(dim))\<close>\<close>

fun create_flows :: "nat \<Rightarrow> nat \<Rightarrow> rng \<Rightarrow> (PlanarFlow list \<times> rng) option" where
  "create_flows 0 d g = Some ([], g)"
| "create_flows (Suc k) d g = do {
     (pf, g1) \<leftarrow> PlanarFlow_init (DimInt d) None None None g;
     (pfs, g2) \<leftarrow> create_flows k d g1;
     Some (pf # pfs, g2)
   }"

text \<open>
  The constructor. \<open>num_layers\<close> defaults to 1 when absent. With a supplied list of flows
  the code assigns \<^verbatim>\<open>self.num_layrs = len(self.flows)\<close>, an attribute of its own, and
  leaves \<^verbatim>\<open>self.num_layers\<close> as the argument. \<open>tg\<close> supplies the draws of the default
  base distribution, \<open>g\<close> those of \<^verbatim>\<open>np.random\<close>.
\<close>

definition FlowRandomVariable_init ::
  "nat \<Rightarrow> nat option \<Rightarrow> PlanarFlow list option \<Rightarrow> base_dist option \<Rightarrow> rng \<Rightarrow> rng
     \<Rightarrow> (FlowRandomVariable \<times> rng) option" where
  "FlowRandomVariable_init d num_layers flows base_dist tg g =
     (let nl = (case num_layers of None \<Rightarrow> 1 | Some k \<Rightarrow> k);
          bd = (case base_dist of None \<Rightarrow> Normal (np_zeros [d]) (np_ones [d]) tg | Some bd \<Rightarrow> bd)
      in case flows of
           None \<Rightarrow> do {
             (fs, g') \<leftarrow> create_flows nl d g;
             Some (\<lparr>frv_dim = d, frv_num_layers = nl, frv_base_dist = bd, frv_flows = fs,
                     frv_num_layrs = None\<rparr>, g')
           }
         | Some fs \<Rightarrow>
             Some (\<lparr>frv_dim = d, frv_num_layers = nl, frv_base_dist = bd, frv_flows = fs,
                     frv_num_layrs = Some (length fs)\<rparr>, g))"



text \<open>
  The loop over the layers, which \<^verbatim>\<open>FlowRandomVariable.sample_log_prob\<close> and the chain
  variables below all contain in the same words:
  \<^verbatim>\<open>log_prob += layer.log_det_jacobian(samples); samples = layer.transform(samples)\<close>.
\<close>

fun apply_layers :: "PlanarFlow list \<Rightarrow> tensor \<Rightarrow> tensor \<Rightarrow> (tensor \<times> tensor) option" where
  "apply_layers [] samples log_prob = Some (samples, log_prob)"
| "apply_layers (flow # flows) samples log_prob = do {
     ldj \<leftarrow> log_det_jacobian flow samples;
     log_prob' \<leftarrow> tf_add log_prob ldj;
     samples' \<leftarrow> PlanarFlow_transform flow samples;
     apply_layers flows samples' log_prob'
   }"

text \<open>The samples and log-density of the base distribution, before any layer.\<close>

definition base_sample_log_prob :: "FlowRandomVariable \<Rightarrow> nat \<Rightarrow> (tensor \<times> tensor) option" where
  "base_sample_log_prob self n_samples =
     (case frv_base_dist self of
        Distribution smp lp \<Rightarrow>
          (case frv_flows self of
             [] \<Rightarrow> None
           | flow0 # fs \<Rightarrow>
               if is_single_flow flow0 then do {
                 samples \<leftarrow> smp [n_samples];
                 l \<leftarrow> lp samples;
                 log_prob \<leftarrow> tf_reduce_sum l 1 False;
                 Some (samples, log_prob)
               } else do {
                 samples \<leftarrow> smp [get_flow_number flow0, n_samples];
                 l \<leftarrow> lp samples;
                 log_prob \<leftarrow> tf_reduce_sum l 2 False;
                 Some (samples, log_prob)
               })
      | Precomputed samples log_prob \<Rightarrow> Some (samples, log_prob))"

definition FlowRandomVariable_sample_log_prob ::
  "FlowRandomVariable \<Rightarrow> nat \<Rightarrow> (tensor \<times> tensor) option" where
  "FlowRandomVariable_sample_log_prob self n_samples = do {
     (samples, log_prob) \<leftarrow> base_sample_log_prob self n_samples;
     apply_layers (frv_flows self) samples log_prob
   }"

fun FlowRandomVariable_transform :: "PlanarFlow list \<Rightarrow> tensor \<Rightarrow> tensor option" where
  "FlowRandomVariable_transform [] x = Some x"
| "FlowRandomVariable_transform (flow # flows) x = do {
     x' \<leftarrow> PlanarFlow_transform flow x;
     FlowRandomVariable_transform flows x'
   }"

text \<open>
  The recurrence of the specification: the samples \<open>s\<^sub>i\<close> and log-density \<open>p\<^sub>i\<close> after the
  first \<open>i\<close> layers, with \<open>p\<^sub>i = p\<^sub>i\<^sub>-\<^sub>1 + f\<^sub>i.log_det_jacobian(s\<^sub>i\<^sub>-\<^sub>1)\<close> and
  \<open>s\<^sub>i = f\<^sub>i.transform(s\<^sub>i\<^sub>-\<^sub>1)\<close>.
\<close>

fun layer_state :: "PlanarFlow list \<Rightarrow> tensor \<Rightarrow> tensor \<Rightarrow> nat \<Rightarrow> (tensor \<times> tensor) option" where
  "layer_state fs s0 p0 0 = Some (s0, p0)"
| "layer_state fs s0 p0 (Suc i) = do {
     (s, p) \<leftarrow> layer_state fs s0 p0 i;
     ldj \<leftarrow> log_det_jacobian (fs ! i) s;
     p' \<leftarrow> tf_add p ldj;
     s' \<leftarrow> PlanarFlow_transform (fs ! i) s;
     Some (s', p')
   }"

section \<open>FlowConditionalVariable\<close>

text \<open>
  \<^verbatim>\<open>MultiLayerPerceptron\<close> comes from the module \<^verbatim>\<open>variational\<close>. What the code uses of it
  is a map from the input tensor and the list of layer widths to the output layer; the
  three networks of \<^verbatim>\<open>set_up_flows\<close> have parameters of their own, so they are three such
  maps.
\<close>

type_synonym mlp = "tensor \<Rightarrow> nat list \<Rightarrow> tensor option"

text \<open>
  The loop of \<^verbatim>\<open>set_up_flows\<close> over \<^verbatim>\<open>range(self.flow_layers)\<close>. The call
  \<^verbatim>\<open>PlanarFlow(b, u=u, w=w, b=b)\<close> passes the tensor \<open>b\<close> as \<open>dim\<close>.
\<close>

fun slice_flows ::
  "tensor \<Rightarrow> tensor \<Rightarrow> tensor \<Rightarrow> nat \<Rightarrow> nat list \<Rightarrow> rng \<Rightarrow> (PlanarFlow list \<times> rng) option" where
  "slice_flows all_w all_u all_b dim_x [] g = Some ([], g)"
| "slice_flows all_w all_u all_b dim_x (i # is) g = do {
     w \<leftarrow> tf_slice all_w [0, i * dim_x] [- 1, int dim_x];
     u \<leftarrow> tf_slice all_u [0, i * dim_x] [- 1, int dim_x];
     bs \<leftarrow> tf_slice all_b [0, i] [- 1, 1];
     (pf, g1) \<leftarrow> PlanarFlow_init (DimTensor (tf_squeeze bs)) (Some w) (Some (tf_squeeze bs)) (Some u) g;
     (pfs, g2) \<leftarrow> slice_flows all_w all_u all_b dim_x is g1;
     Some (pf # pfs, g2)
   }"

record FlowConditionalVariable =
  fcv_y :: tensor
  fcv_dim_x :: nat
  fcv_dim_y :: nat
  fcv_flow_layers :: nat
  fcv_n_points :: nat
  fcv_base_dist :: "base_dist option"
  fcv_hidden_units :: "nat list"
  fcv_variable :: FlowRandomVariable
  fcv_w :: tensor
  fcv_u :: tensor
  fcv_b :: tensor

definition set_up_flows ::
  "mlp \<Rightarrow> mlp \<Rightarrow> mlp \<Rightarrow> tensor \<Rightarrow> nat \<Rightarrow> nat \<Rightarrow> nat list \<Rightarrow> base_dist option \<Rightarrow> rng \<Rightarrow> rng
     \<Rightarrow> ((FlowRandomVariable \<times> tensor \<times> tensor \<times> tensor) \<times> rng) option" where
  "set_up_flows w_mlp u_mlp b_mlp y dim_x flow_layers hidden_units base_dist tg g = do {
     all_w \<leftarrow> w_mlp y (hidden_units @ [dim_x * flow_layers]);
     all_u \<leftarrow> u_mlp y (hidden_units @ [dim_x * flow_layers]);
     all_b \<leftarrow> b_mlp y (hidden_units @ [flow_layers]);
     (flows, g1) \<leftarrow> slice_flows all_w all_u all_b dim_x [0..<flow_layers] g;
     (variable, g2) \<leftarrow> FlowRandomVariable_init dim_x None (Some flows) base_dist tg g1;
     Some ((variable, all_w, all_u, all_b), g2)
   }"

text \<open>\<^verbatim>\<open>y.shape[1].value\<close> and \<^verbatim>\<open>y.shape[0].value\<close> need a tensor of rank 2 at least.\<close>

definition FlowConditionalVariable_init ::
  "mlp \<Rightarrow> mlp \<Rightarrow> mlp \<Rightarrow> nat \<Rightarrow> tensor \<Rightarrow> nat \<Rightarrow> nat list \<Rightarrow> base_dist option \<Rightarrow> rng \<Rightarrow> rng
     \<Rightarrow> (FlowConditionalVariable \<times> rng) option" where
  "FlowConditionalVariable_init w_mlp u_mlp b_mlp dim_x y flow_layers hidden_units base_dist tg g =
     (case shape y of
        n_points # dim_y # s \<Rightarrow> do {
          ((variable, all_w, all_u, all_b), g') \<leftarrow>
             set_up_flows w_mlp u_mlp b_mlp y dim_x flow_layers hidden_units base_dist tg g;
          Some (\<lparr>fcv_y = y, fcv_dim_x = dim_x, fcv_dim_y = dim_y, fcv_flow_layers = flow_layers,
                  fcv_n_points = n_points, fcv_base_dist = base_dist,
                  fcv_hidden_units = hidden_units, fcv_variable = variable,
                  fcv_w = all_w, fcv_u = all_u, fcv_b = all_b\<rparr>, g')
        }
      | _ \<Rightarrow> None)"

definition FlowConditionalVariable_sample_log_prob ::
  "FlowConditionalVariable \<Rightarrow> nat \<Rightarrow> (tensor \<times> tensor) option" where
  "FlowConditionalVariable_sample_log_prob self n_samples =
     FlowRandomVariable_sample_log_prob (fcv_variable self) n_samples"


text \<open>
  What C6 says of the flow of layer \<open>i\<close>: its \<open>w\<close> and \<open>u\<close> are the columns
  \<open>[i * dim_x, (i + 1) * dim_x)\<close> of the flat outputs, its \<open>b\<close> is column \<open>i\<close> of the flat bias
  output (squeezed, as the code does), and it has one parameter row per row of \<open>y\<close>.
\<close>

definition flow_of_chunk ::
  "tensor \<Rightarrow> tensor \<Rightarrow> tensor \<Rightarrow> nat \<Rightarrow> nat \<Rightarrow> nat \<Rightarrow> PlanarFlow \<Rightarrow> bool" where
  "flow_of_chunk all_w all_u all_b N dim_x i f \<longleftrightarrow>
     shape (pf_w f) = [N, dim_x] \<and> shape (pf_u f) = [N, dim_x] \<and> pf_n_flows f = N \<and>
     list_all (\<lambda>r.
         list_all (\<lambda>k.
             elem (pf_w f) [r, k] = elem all_w [r, i * dim_x + k] \<and>
             elem (pf_u f) [r, k] = elem all_u [r, i * dim_x + k]) [0..<dim_x] \<and>
         elem (pf_b f) (squeeze_index [N, 1] [r, 0]) = elem all_b [r, i]) [0..<N]"


section \<open>DynaFlowRandomVariable\<close>

record DynaFlowRandomVariable =
  dfr_full_dim :: nat
  dfr_dim :: nat
  dfr_n_time :: nat
  dfr_num_layers :: nat
  dfr_base_dist :: base_dist
  dfr_flows :: "PlanarFlow list list"

text \<open>
  \<^verbatim>\<open>setup_flow_layers\<close>: for each \<open>t\<close> in \<^verbatim>\<open>range(self.n_time - 1)\<close> a list of \<open>num_layers\<close>
  flows \<^verbatim>\<open>PlanarFlow(2 * self.dim)\<close>. The first argument counts the time steps still to set
  up.
\<close>

fun setup_flow_layers :: "nat \<Rightarrow> nat \<Rightarrow> nat \<Rightarrow> rng \<Rightarrow> (PlanarFlow list list \<times> rng) option" where
  "setup_flow_layers 0 num_layers d g = Some ([], g)"
| "setup_flow_layers (Suc t) num_layers d g = do {
     (time_flow, g1) \<leftarrow> create_flows num_layers (2 * d) g;
     (rest, g2) \<leftarrow> setup_flow_layers t num_layers d g1;
     Some (time_flow # rest, g2)
   }"

definition DynaFlowRandomVariable_init ::
  "nat \<Rightarrow> nat \<Rightarrow> nat \<Rightarrow> base_dist option \<Rightarrow> rng \<Rightarrow> rng \<Rightarrow> (DynaFlowRandomVariable \<times> rng) option" where
  "DynaFlowRandomVariable_init d time num_layers base_dist tg g = do {
     (flows, g') \<leftarrow> setup_flow_layers (time - 1) num_layers d g;
     Some (\<lparr>dfr_full_dim = d * time, dfr_dim = d, dfr_n_time = time,
             dfr_num_layers = num_layers,
             dfr_base_dist = (case base_dist of
                                None \<Rightarrow> Normal (np_zeros [d * time]) (np_ones [d * time]) tg
                              | Some bd \<Rightarrow> bd),
             dfr_flows = flows\<rparr>, g')
   }"

text \<open>
  The loop \<^verbatim>\<open>for i, time_flow in enumerate(self.flows)\<close> of \<open>sample_log_prob\<close>; its state is
  \<open>final_samples\<close>, \<open>pre_latent\<close> and \<open>log_prob\<close>.
\<close>

fun time_loop ::
  "nat \<Rightarrow> nat \<Rightarrow> tensor \<Rightarrow> (nat \<times> PlanarFlow list) list \<Rightarrow> tensor list \<Rightarrow> tensor \<Rightarrow> tensor
     \<Rightarrow> (tensor list \<times> tensor \<times> tensor) option" where
  "time_loop d n samples [] final_samples pre_latent log_prob =
     Some (final_samples, pre_latent, log_prob)"
| "time_loop d n samples ((i, time_flow) # rest) final_samples pre_latent log_prob = do {
     cur_latent \<leftarrow> tf_slice samples [0, (i + 1) * d] [int n, int d];
     latent_pair \<leftarrow> tf_concat [pre_latent, cur_latent] 1;
     (latent_pair', log_prob') \<leftarrow> apply_layers time_flow latent_pair log_prob;
     out \<leftarrow> tf_slice latent_pair' [0, 0] [int n, int d];
     pre_latent' \<leftarrow> tf_slice latent_pair' [0, d] [int n, int d];
     time_loop d n samples rest (final_samples @ [out]) pre_latent' log_prob'
   }"

text \<open>
  \<open>sample_log_prob\<close> calls \<^verbatim>\<open>self.base_dist.sample\<close>, which a pair does not have.
\<close>

definition DynaFlowRandomVariable_sample_log_prob ::
  "DynaFlowRandomVariable \<Rightarrow> nat \<Rightarrow> (tensor \<times> tensor) option" where
  "DynaFlowRandomVariable_sample_log_prob self n_samples =
     (case dfr_base_dist self of
        Precomputed s p \<Rightarrow> None
      | Distribution smp lp \<Rightarrow> do {
          samples \<leftarrow> smp [n_samples];
          l \<leftarrow> lp samples;
          log_prob \<leftarrow> tf_reduce_sum l 1 False;
          pre_latent \<leftarrow> tf_slice samples [0, 0] [int n_samples, int (dfr_dim self)];
          (final_samples, pre_latent', log_prob') \<leftarrow>
             time_loop (dfr_dim self) n_samples samples (enumerate 0 (dfr_flows self))
               [] pre_latent log_prob;
          final \<leftarrow> tf_concat (final_samples @ [pre_latent']) 1;
          Some (final, log_prob')
        })"

text \<open>
  The chain of the specification, by time index. \<open>chain_state t\<close> is the \<open>pre_latent\<close>
  that pair index \<open>t\<close> consumes, with the log-density accumulated before it;
  \<open>transformed_pair t\<close> is the latent pair of index \<open>t\<close> after all its layers. The
  \<open>pre_latent\<close> of index \<open>t + 1\<close> is the second half of the transformed pair of index \<open>t\<close>.
\<close>

fun chain_state ::
  "nat \<Rightarrow> nat \<Rightarrow> tensor \<Rightarrow> PlanarFlow list list \<Rightarrow> tensor \<Rightarrow> tensor \<Rightarrow> nat \<Rightarrow> (tensor \<times> tensor) option" where
  "chain_state d n samples flows pre0 p0 0 = Some (pre0, p0)"
| "chain_state d n samples flows pre0 p0 (Suc t) = do {
     (pre, p) \<leftarrow> chain_state d n samples flows pre0 p0 t;
     cur \<leftarrow> tf_slice samples [0, (t + 1) * d] [int n, int d];
     pair \<leftarrow> tf_concat [pre, cur] 1;
     (pair', p') \<leftarrow> apply_layers (flows ! t) pair p;
     pre' \<leftarrow> tf_slice pair' [0, d] [int n, int d];
     Some (pre', p')
   }"

definition transformed_pair ::
  "nat \<Rightarrow> nat \<Rightarrow> tensor \<Rightarrow> PlanarFlow list list \<Rightarrow> tensor \<Rightarrow> tensor \<Rightarrow> nat \<Rightarrow> (tensor \<times> tensor) option" where
  "transformed_pair d n samples flows pre0 p0 t = do {
     (pre, p) \<leftarrow> chain_state d n samples flows pre0 p0 t;
     cur \<leftarrow> tf_slice samples [0, (t + 1) * d] [int n, int d];
     pair \<leftarrow> tf_concat [pre, cur] 1;
     apply_layers (flows ! t) pair p
   }"

section \<open>DynaFlowConditionalRandomVariable\<close>







section \<open>Facts about tensors\<close>

lemma length_indices: "length (indices s) = prod_list s"
proof (induction s)
  case Nil
  show ?case by simp
next
  case (Cons n s)
  have "length (concat (map (\<lambda>i. map ((#) i) (indices s)) [0..<n])) = n * prod_list s"
    by (induction n) (simp_all add: Cons.IH)
  then show ?case by simp
qed

lemma nth_concat_uniform:
  assumes "\<And>i. i < n \<Longrightarrow> length (f i) = m" and "i < n" and "j < m"
  shows "concat (map f [0..<n]) ! (i * m + j) = f i ! j"
  using assms
proof (induction n)
  case 0
  then show ?case by simp
next
  case (Suc n)
  have len: "length (concat (map f [0..<n])) = n * m"
    using Suc.prems(1) by (induction n) simp_all
  show ?case
  proof (cases "i < n")
    case True
    have "i * m + j < n * m"
    proof -
      have "i * m + j < i * m + m" using Suc.prems(3) by simp
      also have "\<dots> = Suc i * m" by simp
      also have "\<dots> \<le> n * m" using True by (intro mult_le_mono1) simp
      finally show ?thesis .
    qed
    then show ?thesis
      using Suc.IH [OF _ True Suc.prems(3)] Suc.prems(1) len by (simp add: nth_append)
  next
    case False
    then have "i = n" using Suc.prems(2) by simp
    then show ?thesis using len by (simp add: nth_append)
  qed
qed

lemma flat_index_less: "valid_index s idx \<Longrightarrow> flat_index s idx < prod_list s"
  unfolding valid_index_def
proof (induction idx s rule: list_all2_induct)
  case Nil
  show ?case by simp
next
  case (Cons i idx n s)
  have "i * prod_list s + flat_index s idx < i * prod_list s + prod_list s"
    using Cons.IH by simp
  also have "\<dots> = Suc i * prod_list s" by simp
  also have "\<dots> \<le> n * prod_list s" using Cons.hyps(1) by (intro mult_le_mono1) simp
  finally show ?case by simp
qed

lemma nth_indices: "valid_index s idx \<Longrightarrow> indices s ! flat_index s idx = idx"
proof (induction s arbitrary: idx)
  case Nil
  then show ?case by (simp add: valid_index_def)
next
  case (Cons n s)
  from Cons.prems obtain i idx' where idx: "idx = i # idx'" and i: "i < n"
    and v: "valid_index s idx'"
    by (auto simp: valid_index_def list_all2_Cons2)
  have "concat (map (\<lambda>i. map ((#) i) (indices s)) [0..<n]) ! (i * prod_list s + flat_index s idx')
        = map ((#) i) (indices s) ! flat_index s idx'"
    by (rule nth_concat_uniform) (simp_all add: length_indices i flat_index_less [OF v])
  also have "\<dots> = i # idx'"
    using flat_index_less [OF v] Cons.IH [OF v] by (simp add: length_indices)
  finally show ?case by (simp add: idx)
qed

lemma shape_mk_tensor [simp]: "shape (mk_tensor s f) = s"
  by (simp add: mk_tensor_def)

lemma elem_mk_tensor: "valid_index s idx \<Longrightarrow> elem (mk_tensor s f) idx = f idx"
  by (simp add: elem_def mk_tensor_def flat_index_less length_indices nth_indices)

lemma shape_tf_map [simp]: "shape (tf_map f t) = shape t"
  by (simp add: tf_map_def)

lemma valid_index_Cons [simp]: "valid_index (d # s) (i # idx) = (i < d \<and> valid_index s idx)"
  by (simp add: valid_index_def)

lemma valid_index_Nil [simp]: "valid_index [] []"
  by (simp add: valid_index_def)

lemma broadcast_index_less [simp]: "i < d \<Longrightarrow> (if d = Suc 0 then 0 else i) = i"
  by auto

lemma sum_list_upt_cong:
  "n = m \<Longrightarrow> (\<And>l. l < m \<Longrightarrow> f l = g l) \<Longrightarrow>
   sum_list (map f [0..<n]) = (sum_list (map g [0..<m]) :: real)"
  by (auto intro: arg_cong [where f = sum_list])

lemmas tf_defs = tf_add_def tf_sub_def tf_mul_def tf_div_def broadcast_op_def broadcast_shape_def
  tf_matmul_def tf_reduce_sum_def tf_expand_dims_def tf_squeeze_def tf_tanh_def tf_map_def
  tf_log_def tf_abs_def tf_neg_def tf_pow_def tf_softplus_def scalar_def

section \<open>PlanarFlow: the reversibility correction\<close>

lemma reversible_constraint_elem:
  assumes "shape w = [n, D]" "shape u = [n, D]"
  shows "\<exists>ub. reversible_constraint w u = Some ub \<and> shape ub = [n, D] \<and>
    (\<forall>i<n. \<forall>k<D. elem ub [i, k] = elem u [i, k] +
        (- 1 + softplus (\<Sum>l\<leftarrow>[0..<D]. elem u [i, l] * elem w [i, l])
             - (\<Sum>l\<leftarrow>[0..<D]. elem u [i, l] * elem w [i, l])) * elem w [i, k]
          / (\<Sum>l\<leftarrow>[0..<D]. elem w [i, l] * elem w [i, l]))"
  using assms
  by (auto simp add: reversible_constraint_def tf_defs Let_def elem_mk_tensor bidx_def
      cong: sum_list_upt_cong)





lemma PlanarFlow_init_given:
  assumes "shape w = [n, D]" "shape u = [n, D]"
  shows "\<exists>ub. reversible_constraint w u = Some ub \<and> shape ub = [n, D] \<and>
     PlanarFlow_init dim_a (Some w) (Some b) (Some u) g =
       Some (\<lparr>pf_dim = dim_a, pf_w = w, pf_b = b, pf_u = u, pf_u_bar = ub, pf_n_flows = n\<rparr>, g)"
  using reversible_constraint_elem [OF assms] assms
  by (auto simp: PlanarFlow_init_def)


lemma elem_Tensor_11 [simp]: "elem (Tensor [Suc 0, Suc 0] [c]) [0, 0] = c"
  by (simp add: elem_def)


text \<open>
  C8 as the code has it. The constructor validates nothing: from \<open>w\<close> and \<open>u\<close> of the
  documented shape it returns a flow, whatever the norm of the rows of \<open>w\<close>; the division
  by \<open>norm_squared\<close> in \<open>reversible_constraint\<close> is unguarded and raises no error.
\<close>

theorem PlanarFlow_init_no_validation:
  assumes "shape w = [n, D]" and "shape u = [n, D]"
  shows "\<exists>pf. PlanarFlow_init dim_a (Some w) (Some b) (Some u) g = Some (pf, g)
              \<and> pf_w pf = w \<and> pf_b pf = b \<and> pf_u pf = u \<and> pf_n_flows pf = n"
  using PlanarFlow_init_given [OF assms, of dim_a b g] by auto

theorem PlanarFlow_init_no_validation_witness:
  "shape (Tensor [1, 2] [0, 0]) = [1, 2] \<and> shape (Tensor [1, 2] [1, 1]) = [1, 2]
   \<and> (\<Sum>l\<leftarrow>[0..<2]. elem (Tensor [1, 2] [0, 0]) [0, l] * elem (Tensor [1, 2] [0, 0]) [0, l]) = 0
   \<and> (\<exists>pf. PlanarFlow_init (DimInt 2) (Some (Tensor [1, 2] [0, 0])) (Some (Tensor [1] [0]))
               (Some (Tensor [1, 2] [1, 1])) (\<lambda>k. 0) = Some (pf, \<lambda>k. 0)
            \<and> pf_w pf = Tensor [1, 2] [0, 0] \<and> pf_b pf = Tensor [1] [0]
            \<and> pf_u pf = Tensor [1, 2] [1, 1] \<and> pf_n_flows pf = 1)"
  using PlanarFlow_init_no_validation [of "Tensor [1, 2] [0, 0]" 1 2 "Tensor [1, 2] [1, 1]"
      "DimInt 2" "Tensor [1] [0]" "\<lambda>k. 0"]
  by (simp add: elem_def eval_nat_numeral)

text \<open>
  C8 as the specification states it fails: constructing a flow whose \<open>w\<close> is the zero
  vector does not end in an error.
\<close>

theorem PlanarFlow_init_zero_norm_counterexample:
  "PlanarFlow_init (DimInt 1) (Some (Tensor [1, 1] [0])) (Some (Tensor [1] [0]))
     (Some (Tensor [1, 1] [1])) (\<lambda>k. 0) \<noteq> None"
  using PlanarFlow_init_given [of "Tensor [1, 1] [0]" 1 1 "Tensor [1, 1] [1]" "DimInt 1"
      "Tensor [1] [0]" "\<lambda>k. 0"]
  by auto

section \<open>PlanarFlow: transform and log-det-Jacobian\<close>

lemma transform_single:
  assumes "shape (pf_w pf) = [1, D]" "shape (pf_b pf) = [1]" "shape (pf_u_bar pf) = [1, D]"
    "pf_n_flows pf = 1" "shape x = [B, D]"
  shows "\<exists>t. PlanarFlow_transform pf x = Some t \<and> shape t = [B, D] \<and>
    (\<forall>j<B. \<forall>k<D. elem t [j, k] = elem x [j, k] + elem (pf_u_bar pf) [0, k] *
        tanh ((\<Sum>l\<leftarrow>[0..<D]. elem x [j, l] * elem (pf_w pf) [0, l]) + elem (pf_b pf) [0]))"
  using assms
  by (auto simp add: PlanarFlow_transform_def is_single_flow_def tf_defs Let_def elem_mk_tensor
      bidx_def cong: sum_list_upt_cong)

lemma transform_multi:
  assumes "shape (pf_w pf) = [n, D]" "shape (pf_b pf) = [n]" "shape (pf_u_bar pf) = [n, D]"
    "pf_n_flows pf = n" "n \<noteq> 1" "shape x = [n, B, D]"
  shows "\<exists>t. PlanarFlow_transform pf x = Some t \<and> shape t = [n, B, D] \<and>
    (\<forall>i<n. \<forall>j<B. \<forall>k<D. elem t [i, j, k] = elem x [i, j, k] + elem (pf_u_bar pf) [i, k] *
        tanh ((\<Sum>l\<leftarrow>[0..<D]. elem x [i, j, l] * elem (pf_w pf) [i, l]) + elem (pf_b pf) [i]))"
  using assms
  by (auto simp add: PlanarFlow_transform_def is_single_flow_def tf_defs Let_def elem_mk_tensor
      bidx_def cong: sum_list_upt_cong)

lemma ldj_single:
  assumes "shape (pf_w pf) = [1, D]" "shape (pf_b pf) = [1]" "shape (pf_u_bar pf) = [1, D]"
    "pf_n_flows pf = 1" "shape x = [B, D]"
  shows "\<exists>t. log_det_jacobian pf x = Some t \<and> shape t = (if B = 1 then [] else [B]) \<and>
    (\<forall>j<B. elem t (if B = 1 then [] else [j]) =
        - ln \<bar>1 + (\<Sum>k\<leftarrow>[0..<D]. elem (pf_u_bar pf) [0, k] * elem (pf_w pf) [0, k]) *
           (1 - tanh ((\<Sum>l\<leftarrow>[0..<D]. elem x [j, l] * elem (pf_w pf) [0, l])
                      + elem (pf_b pf) [0]) ^ 2)\<bar>)"
  using assms
  by (auto simp add: log_det_jacobian_def is_single_flow_def tf_defs Let_def elem_mk_tensor
      bidx_def squeeze_shape_def cong: sum_list_upt_cong)

lemma ldj_multi:
  assumes "shape (pf_w pf) = [n, D]" "shape (pf_b pf) = [n]" "shape (pf_u_bar pf) = [n, D]"
    "pf_n_flows pf = n" "n \<noteq> 1" "shape x = [n, B, D]"
  shows "\<exists>t. log_det_jacobian pf x = Some t \<and> shape t = (if B = 1 then [n] else [n, B]) \<and>
    (\<forall>i<n. \<forall>j<B. elem t (if B = 1 then [i] else [i, j]) =
        - ln \<bar>1 + (\<Sum>k\<leftarrow>[0..<D]. elem (pf_u_bar pf) [i, k] * elem (pf_w pf) [i, k]) *
           (1 - tanh ((\<Sum>l\<leftarrow>[0..<D]. elem x [i, j, l] * elem (pf_w pf) [i, l])
                      + elem (pf_b pf) [i]) ^ 2)\<bar>)"
  using assms
  by (auto simp add: log_det_jacobian_def is_single_flow_def tf_defs Let_def elem_mk_tensor
      bidx_def squeeze_shape_def cong: sum_list_upt_cong)

text \<open>
  C4. For a flow of the documented shapes and an input of the documented layout,
  \<open>transform\<close> returns a tensor of the input's shape whose entry \<open>k\<close> of batch element \<open>j\<close>
  in the slice of flow \<open>i\<close> is \<open>x + u_bar * tanh (x \<sqdot> w + b)\<close>, computed from row \<open>i\<close> of
  \<open>w\<close>, \<open>b\<close>, \<open>u_bar\<close> and from the same slice of the input only.
\<close>

theorem transform_formula:
  assumes "flow_shapes pf n D" and "shape x = input_shape n [B, D]"
  shows "\<exists>t. PlanarFlow_transform pf x = Some t \<and> shape t = input_shape n [B, D] \<and>
    (\<forall>i<n. \<forall>j<B. \<forall>k<D.
       elem t (in_flow n i [j, k]) =
         elem x (in_flow n i [j, k]) + elem (pf_u_bar pf) [i, k] *
           tanh ((\<Sum>l\<leftarrow>[0..<D]. elem x (in_flow n i [j, l]) * elem (pf_w pf) [i, l])
                 + elem (pf_b pf) [i]))"
proof (cases "n = 1")
  case True
  with assms transform_single [of pf D x B] show ?thesis
    by (simp add: flow_shapes_def input_shape_def in_flow_def)
next
  case False
  with assms transform_multi [of pf n D x B] show ?thesis
    by (simp add: flow_shapes_def input_shape_def in_flow_def)
qed

theorem transform_formula_witness:
  "flow_shapes \<lparr>pf_dim = DimInt 1, pf_w = Tensor [1, 1] [1], pf_b = Tensor [1] [0],
       pf_u = Tensor [1, 1] [1 / 2], pf_u_bar = Tensor [1, 1] [softplus (1 / 2) - 1],
       pf_n_flows = 1\<rparr> 1 1
   \<and> shape (Tensor [1, 1] [0]) = input_shape 1 [1, 1]
   \<and> (\<exists>t. PlanarFlow_transform \<lparr>pf_dim = DimInt 1, pf_w = Tensor [1, 1] [1],
              pf_b = Tensor [1] [0], pf_u = Tensor [1, 1] [1 / 2],
              pf_u_bar = Tensor [1, 1] [softplus (1 / 2) - 1], pf_n_flows = 1\<rparr>
              (Tensor [1, 1] [0]) = Some t
          \<and> shape t = [1, 1] \<and> elem t [0, 0] = 0)"
  using transform_formula [of "\<lparr>pf_dim = DimInt 1, pf_w = Tensor [1, 1] [1],
       pf_b = Tensor [1] [0], pf_u = Tensor [1, 1] [1 / 2],
       pf_u_bar = Tensor [1, 1] [softplus (1 / 2) - 1], pf_n_flows = 1\<rparr>" 1 1
      "Tensor [1, 1] [0]" 1]
  by (simp add: flow_shapes_def input_shape_def in_flow_def elem_def)

text \<open>
  C1. Under the same conditions \<open>log_det_jacobian\<close> returns a tensor whose entry for flow
  \<open>i\<close> and batch element \<open>j\<close> is \<open>- ln \<bar>1 + dot (u_bar, w) * (1 - tanh (x \<sqdot> w + b)\<^sup>2)\<bar>\<close>,
  with the dot product and the dilation taken from row \<open>i\<close> of the parameters.
\<close>

theorem log_det_jacobian_formula:
  assumes "flow_shapes pf n D" and "shape x = input_shape n [B, D]"
  shows "\<exists>t. log_det_jacobian pf x = Some t \<and>
    (\<forall>i<n. \<forall>j<B.
       elem t (squeeze_index [n, B] [i, j]) =
         - ln \<bar>1 + (\<Sum>k\<leftarrow>[0..<D]. elem (pf_u_bar pf) [i, k] * elem (pf_w pf) [i, k]) *
           (1 - tanh ((\<Sum>l\<leftarrow>[0..<D]. elem x (in_flow n i [j, l]) * elem (pf_w pf) [i, l])
                      + elem (pf_b pf) [i]) ^ 2)\<bar>)"
proof (cases "n = 1")
  case True
  with assms ldj_single [of pf D x B] show ?thesis
    by (auto simp add: flow_shapes_def input_shape_def in_flow_def squeeze_index_def)
next
  case False
  with assms ldj_multi [of pf n D x B] show ?thesis
    by (auto simp add: flow_shapes_def input_shape_def in_flow_def squeeze_index_def)
qed

theorem log_det_jacobian_formula_witness:
  "flow_shapes \<lparr>pf_dim = DimInt 1, pf_w = Tensor [2, 1] [1, 2], pf_b = Tensor [2] [0, 0],
       pf_u = Tensor [2, 1] [3, 5], pf_u_bar = Tensor [2, 1] [3, 5], pf_n_flows = 2\<rparr> 2 1
   \<and> shape (Tensor [2, 1, 1] [0, 0]) = input_shape 2 [1, 1]
   \<and> (\<exists>t. log_det_jacobian \<lparr>pf_dim = DimInt 1, pf_w = Tensor [2, 1] [1, 2],
              pf_b = Tensor [2] [0, 0], pf_u = Tensor [2, 1] [3, 5],
              pf_u_bar = Tensor [2, 1] [3, 5], pf_n_flows = 2\<rparr>
              (Tensor [2, 1, 1] [0, 0]) = Some t
          \<and> elem t [0] = - ln 4 \<and> elem t [1] = - ln 11)"
  using log_det_jacobian_formula [of "\<lparr>pf_dim = DimInt 1, pf_w = Tensor [2, 1] [1, 2],
       pf_b = Tensor [2] [0, 0], pf_u = Tensor [2, 1] [3, 5],
       pf_u_bar = Tensor [2, 1] [3, 5], pf_n_flows = 2\<rparr>" 2 1
      "Tensor [2, 1, 1] [0, 0]" 1]
  by (simp add: flow_shapes_def input_shape_def in_flow_def squeeze_index_def
      eval_nat_numeral All_less_Suc)
     (auto simp add: elem_def)

text \<open>
  The shape of the result: the batch shape of the input (its shape without the feature
  axis) with every axis of size 1 removed, since the result goes through \<^verbatim>\<open>tf.squeeze\<close>.
\<close>

lemma log_det_jacobian_shape:
  assumes "flow_shapes pf n D" and "shape x = input_shape n [B, D]"
  shows "\<exists>t. log_det_jacobian pf x = Some t \<and> shape t = squeeze_shape (butlast (shape x)) \<and>
           (if B = 1 then shape t = butlast (butlast (shape x)) else shape t = butlast (shape x))"
proof (cases "n = 1")
  case True
  with assms ldj_single [of pf D x B] show ?thesis
    by (auto simp add: flow_shapes_def input_shape_def squeeze_shape_def)
next
  case False
  with assms ldj_multi [of pf n D x B] show ?thesis
    by (auto simp add: flow_shapes_def input_shape_def squeeze_shape_def)
qed

text \<open>
  C7 fails on the code for a batch of one. Two flows (\<open>n_flows = 2\<close>, \<open>dim = 1\<close>) and an
  input of shape \<open>[2, 1, 1]\<close>, one batch element per flow: the batch shape is \<open>[2, 1]\<close>,
  the result has shape \<open>[2]\<close>; and added to a log-density of the batch shape \<open>[2, 1]\<close>, as
  \<^verbatim>\<open>log_prob += flow.log_det_jacobian(samples)\<close> does, it broadcasts to shape \<open>[2, 2]\<close>.
\<close>

theorem log_det_jacobian_batch_of_one:
  "butlast (shape (Tensor [2, 1, 1] [0, 0])) = [2, 1]
   \<and> map_option shape
       (log_det_jacobian \<lparr>pf_dim = DimInt 1, pf_w = Tensor [2, 1] [1, 2],
          pf_b = Tensor [2] [0, 0], pf_u = Tensor [2, 1] [3, 5],
          pf_u_bar = Tensor [2, 1] [3, 5], pf_n_flows = 2\<rparr> (Tensor [2, 1, 1] [0, 0]))
     = Some [2]
   \<and> map_option shape
       (do {
          ldj \<leftarrow> log_det_jacobian \<lparr>pf_dim = DimInt 1, pf_w = Tensor [2, 1] [1, 2],
             pf_b = Tensor [2] [0, 0], pf_u = Tensor [2, 1] [3, 5],
             pf_u_bar = Tensor [2, 1] [3, 5], pf_n_flows = 2\<rparr> (Tensor [2, 1, 1] [0, 0]);
          tf_add (Tensor [2, 1] [0, 0]) ldj
        })
     = Some [2, 2]"
proof -
  let ?pf = "\<lparr>pf_dim = DimInt 1, pf_w = Tensor [2, 1] [1, 2], pf_b = Tensor [2] [0, 0],
     pf_u = Tensor [2, 1] [3, 5], pf_u_bar = Tensor [2, 1] [3, 5], pf_n_flows = 2\<rparr>"
  obtain t where t: "log_det_jacobian ?pf (Tensor [2, 1, 1] [0, 0]) = Some t"
    and st: "shape t = [2]"
    using ldj_multi [of ?pf 2 1 "Tensor [2, 1, 1] [0, 0]" 1] by auto
  have "map_option shape (tf_add (Tensor [2, 1] [0, 0]) t) = Some [2, 2]"
    by (simp add: tf_add_def broadcast_op_def broadcast_shape_def st)
  with t st show ?thesis by simp
qed

section \<open>FlowRandomVariable: accumulation of the log-density\<close>

lemma apply_layers_snoc:
  "apply_layers (fs @ [f]) s p = do {
     (s', p') \<leftarrow> apply_layers fs s p;
     ldj \<leftarrow> log_det_jacobian f s';
     p'' \<leftarrow> tf_add p' ldj;
     s'' \<leftarrow> PlanarFlow_transform f s';
     Some (s'', p'')
   }"
proof (induction fs arbitrary: s p)
  case Nil
  show ?case by (simp split: bind_splits)
next
  case (Cons a fs)
  show ?case by (simp add: Cons.IH split: bind_splits)
qed

lemma layer_state_prefix:
  "i \<le> length fs \<Longrightarrow> layer_state (fs @ gs) s0 p0 i = layer_state fs s0 p0 i"
  by (induction i) (simp_all add: nth_append)

lemma layer_state_apply_layers:
  "layer_state fs s0 p0 (length fs) = apply_layers fs s0 p0"
proof (induction fs rule: rev_induct)
  case Nil
  show ?case by simp
next
  case (snoc f fs)
  show ?case
    by (simp add: layer_state_prefix snoc.IH apply_layers_snoc)
qed

text \<open>
  C2. \<open>sample_log_prob\<close> returns the state \<open>(s\<^sub>k, p\<^sub>k)\<close> of the recurrence \<open>layer_state\<close>
  after all \<open>k\<close> layers, started from the base samples and the base log-density: each
  layer's log-det-Jacobian is taken at the samples that enter the layer, then the layer
  transforms them.
\<close>

theorem sample_log_prob_recurrence:
  "FlowRandomVariable_sample_log_prob self n_samples = do {
     (s0, p0) \<leftarrow> base_sample_log_prob self n_samples;
     layer_state (frv_flows self) s0 p0 (length (frv_flows self))
   }"
  by (simp add: FlowRandomVariable_sample_log_prob_def layer_state_apply_layers)

theorem sample_log_prob_recurrence_witness:
  "FlowRandomVariable_sample_log_prob
     \<lparr>frv_dim = 1, frv_num_layers = 1,
      frv_base_dist = Precomputed (Tensor [1, 1] [0]) (Tensor [1] [0]),
      frv_flows = [\<lparr>pf_dim = DimInt 1, pf_w = Tensor [1, 1] [1], pf_b = Tensor [1] [0],
         pf_u = Tensor [1, 1] [1 / 2], pf_u_bar = Tensor [1, 1] [softplus (1 / 2) - 1],
         pf_n_flows = 1\<rparr>],
      frv_num_layrs = Some 1\<rparr> 1
   = layer_state [\<lparr>pf_dim = DimInt 1, pf_w = Tensor [1, 1] [1], pf_b = Tensor [1] [0],
         pf_u = Tensor [1, 1] [1 / 2], pf_u_bar = Tensor [1, 1] [softplus (1 / 2) - 1],
         pf_n_flows = 1\<rparr>] (Tensor [1, 1] [0]) (Tensor [1] [0]) 1"
  using sample_log_prob_recurrence [of "\<lparr>frv_dim = 1, frv_num_layers = 1,
      frv_base_dist = Precomputed (Tensor [1, 1] [0]) (Tensor [1] [0]),
      frv_flows = [\<lparr>pf_dim = DimInt 1, pf_w = Tensor [1, 1] [1], pf_b = Tensor [1] [0],
         pf_u = Tensor [1, 1] [1 / 2], pf_u_bar = Tensor [1, 1] [softplus (1 / 2) - 1],
         pf_n_flows = 1\<rparr>],
      frv_num_layrs = Some 1\<rparr>" 1]
  by (simp add: base_sample_log_prob_def)

section \<open>FlowRandomVariable: the stored number of layers\<close>





section \<open>FlowConditionalVariable: slicing the network outputs\<close>

lemma slice_cols:
  assumes "shape t = [N, W]" "c + m \<le> W"
  shows "\<exists>s. tf_slice t [0, c] [- 1, int m] = Some s \<and> shape s = [N, m] \<and>
           (\<forall>r<N. \<forall>k<m. elem s [r, k] = elem t [r, c + k])"
  using assms by (auto simp: tf_slice_def slice_dim_def elem_mk_tensor)

lemma squeeze_column:
  assumes "shape t = [N, 1]"
  shows "shape (tf_squeeze t) = squeeze_shape [N, 1] \<and>
         (\<forall>r<N. elem (tf_squeeze t) (squeeze_index [N, 1] [r, 0]) = elem t [r, 0])"
  using assms by (auto simp: tf_squeeze_def squeeze_shape_def squeeze_index_def elem_mk_tensor)

lemma slice_flows_step:
  assumes w: "shape all_w = [N, dim_x * L]" and u: "shape all_u = [N, dim_x * L]"
    and b: "shape all_b = [N, L]" and i: "i < L"
  shows "\<exists>wi ui bi f. tf_slice all_w [0, i * dim_x] [- 1, int dim_x] = Some wi
     \<and> tf_slice all_u [0, i * dim_x] [- 1, int dim_x] = Some ui
     \<and> tf_slice all_b [0, i] [- 1, 1] = Some bi
     \<and> PlanarFlow_init (DimTensor (tf_squeeze bi)) (Some wi) (Some (tf_squeeze bi)) (Some ui) g
          = Some (f, g)
     \<and> flow_of_chunk all_w all_u all_b N dim_x i f"
proof -
  have le: "i * dim_x + dim_x \<le> dim_x * L"
  proof -
    have "i * dim_x + dim_x = Suc i * dim_x" by simp
    also have "\<dots> \<le> L * dim_x" using i by (intro mult_le_mono1) simp
    finally show ?thesis by (simp add: mult.commute)
  qed
  obtain wi where wi: "tf_slice all_w [0, i * dim_x] [- 1, int dim_x] = Some wi"
    "shape wi = [N, dim_x]" "\<forall>r<N. \<forall>k<dim_x. elem wi [r, k] = elem all_w [r, i * dim_x + k]"
    using slice_cols [OF w le] by auto
  obtain ui where ui: "tf_slice all_u [0, i * dim_x] [- 1, int dim_x] = Some ui"
    "shape ui = [N, dim_x]" "\<forall>r<N. \<forall>k<dim_x. elem ui [r, k] = elem all_u [r, i * dim_x + k]"
    using slice_cols [OF u le] by auto
  obtain bi where bi: "tf_slice all_b [0, i] [- 1, 1] = Some bi"
    "shape bi = [N, 1]" "\<forall>r<N. elem bi [r, 0] = elem all_b [r, i]"
    using slice_cols [OF b, of i 1] i by auto
  obtain ub where init:
    "PlanarFlow_init (DimTensor (tf_squeeze bi)) (Some wi) (Some (tf_squeeze bi)) (Some ui) g =
       Some (\<lparr>pf_dim = DimTensor (tf_squeeze bi), pf_w = wi, pf_b = tf_squeeze bi,
               pf_u = ui, pf_u_bar = ub, pf_n_flows = N\<rparr>, g)"
    using PlanarFlow_init_given [OF wi(2) ui(2)] by blast
  have "flow_of_chunk all_w all_u all_b N dim_x i
     \<lparr>pf_dim = DimTensor (tf_squeeze bi), pf_w = wi, pf_b = tf_squeeze bi,
        pf_u = ui, pf_u_bar = ub, pf_n_flows = N\<rparr>"
    using wi ui bi squeeze_column [OF bi(2)]
    by (simp add: flow_of_chunk_def list_all_iff)
  with wi(1) ui(1) bi(1) init show ?thesis by blast
qed

lemma slice_flows_chunks:
  assumes w: "shape all_w = [N, dim_x * L]" and u: "shape all_u = [N, dim_x * L]"
    and b: "shape all_b = [N, L]" and inds: "list_all (\<lambda>i. i < L) inds"
  shows "\<exists>fs. slice_flows all_w all_u all_b dim_x inds g = Some (fs, g) \<and>
           list_all2 (flow_of_chunk all_w all_u all_b N dim_x) inds fs"
  using inds
proof (induction inds)
  case Nil
  show ?case by simp
next
  case (Cons i inds)
  then have i: "i < L" and rest: "list_all (\<lambda>i. i < L) inds" by simp_all
  from slice_flows_step [OF w u b i, of g] obtain wi ui bi f where
    st: "tf_slice all_w [0, i * dim_x] [- 1, int dim_x] = Some wi"
    "tf_slice all_u [0, i * dim_x] [- 1, int dim_x] = Some ui"
    "tf_slice all_b [0, i] [- 1, 1] = Some bi"
    "PlanarFlow_init (DimTensor (tf_squeeze bi)) (Some wi) (Some (tf_squeeze bi)) (Some ui) g
          = Some (f, g)"
    "flow_of_chunk all_w all_u all_b N dim_x i f"
    by blast
  from Cons.IH [OF rest] obtain fs where
    fs: "slice_flows all_w all_u all_b dim_x inds g = Some (fs, g)"
    "list_all2 (flow_of_chunk all_w all_u all_b N dim_x) inds fs" by blast
  show ?case using st fs by simp
qed

text \<open>
  C6. Let the three networks return, for the covariate \<open>y\<close> of shape \<open>[N, dim_y]\<close>, flat
  outputs of shape \<open>[N, dim_x * flow_layers]\<close> (for \<open>w\<close> and \<open>u\<close>) and \<open>[N, flow_layers]\<close> (for
  \<open>b\<close>). Then the constructor builds \<open>flow_layers\<close> flows, and the flow of layer \<open>i\<close> has
  as \<open>w\<close> and \<open>u\<close> the columns \<open>[i * dim_x, (i + 1) * dim_x)\<close> of the flat outputs, as \<open>b\<close>
  column \<open>i\<close> of the flat bias output, and \<open>n_flows = N\<close>.
\<close>

theorem set_up_flows_chunks:
  assumes "shape y = [N, dim_y]"
    and "w_mlp y (hidden_units @ [dim_x * L]) = Some all_w"
    and "u_mlp y (hidden_units @ [dim_x * L]) = Some all_u"
    and "b_mlp y (hidden_units @ [L]) = Some all_b"
    and "shape all_w = [N, dim_x * L]" and "shape all_u = [N, dim_x * L]"
    and "shape all_b = [N, L]"
  shows "\<exists>cv. FlowConditionalVariable_init w_mlp u_mlp b_mlp dim_x y L hidden_units base_dist tg g
              = Some (cv, g)
     \<and> fcv_n_points cv = N \<and> fcv_w cv = all_w \<and> fcv_u cv = all_u \<and> fcv_b cv = all_b
     \<and> length (frv_flows (fcv_variable cv)) = L
     \<and> (\<forall>i<L. flow_of_chunk all_w all_u all_b N dim_x i (frv_flows (fcv_variable cv) ! i))"
proof -
  have "list_all (\<lambda>i. i < L) [0..<L]" by (simp add: list_all_iff)
  from slice_flows_chunks [OF assms(5,6,7) this, of g] obtain fs where
    fs: "slice_flows all_w all_u all_b dim_x [0..<L] g = Some (fs, g)"
    and ch: "list_all2 (flow_of_chunk all_w all_u all_b N dim_x) [0..<L] fs" by blast
  from ch have len: "length fs = L" by (auto dest: list_all2_lengthD)
  from ch have nth: "\<forall>i<L. flow_of_chunk all_w all_u all_b N dim_x i (fs ! i)"
    by (auto simp: list_all2_conv_all_nth)
  show ?thesis
    using assms(1-4) fs len nth
    by (simp add: FlowConditionalVariable_init_def set_up_flows_def FlowRandomVariable_init_def)
qed

theorem set_up_flows_chunks_witness:
  "shape (Tensor [2, 1] [0, 0]) = [2, 1]
   \<and> shape (Tensor [2, 2] [1, 2, 3, 4]) = [2, 1 * 2]
   \<and> shape (Tensor [2, 2] [9, 10, 11, 12]) = [2, 2]
   \<and> (\<exists>cv. FlowConditionalVariable_init
               (\<lambda>y ls. Some (Tensor [2, 2] [1, 2, 3, 4]))
               (\<lambda>y ls. Some (Tensor [2, 2] [5, 6, 7, 8]))
               (\<lambda>y ls. Some (Tensor [2, 2] [9, 10, 11, 12]))
               1 (Tensor [2, 1] [0, 0]) 2 [] None (\<lambda>k. 0) (\<lambda>k. 0) = Some (cv, \<lambda>k. 0)
          \<and> length (frv_flows (fcv_variable cv)) = 2
          \<and> pf_n_flows (frv_flows (fcv_variable cv) ! 1) = 2
          \<and> elem (pf_w (frv_flows (fcv_variable cv) ! 1)) [0, 0] = 2
          \<and> elem (pf_w (frv_flows (fcv_variable cv) ! 1)) [1, 0] = 4
          \<and> elem (pf_u (frv_flows (fcv_variable cv) ! 1)) [1, 0] = 8
          \<and> elem (pf_b (frv_flows (fcv_variable cv) ! 1)) [0] = 10
          \<and> elem (pf_b (frv_flows (fcv_variable cv) ! 1)) [1] = 12)"
proof -
  from set_up_flows_chunks [of "Tensor [2, 1] [0, 0]" 2 1
      "\<lambda>y ls. Some (Tensor [2, 2] [1, 2, 3, 4])" "[]" 1 2 "Tensor [2, 2] [1, 2, 3, 4]"
      "\<lambda>y ls. Some (Tensor [2, 2] [5, 6, 7, 8])" "Tensor [2, 2] [5, 6, 7, 8]"
      "\<lambda>y ls. Some (Tensor [2, 2] [9, 10, 11, 12])" "Tensor [2, 2] [9, 10, 11, 12]"
      None "\<lambda>k. 0" "\<lambda>k. 0"]
  obtain cv where cv: "FlowConditionalVariable_init
               (\<lambda>y ls. Some (Tensor [2, 2] [1, 2, 3, 4]))
               (\<lambda>y ls. Some (Tensor [2, 2] [5, 6, 7, 8]))
               (\<lambda>y ls. Some (Tensor [2, 2] [9, 10, 11, 12]))
               1 (Tensor [2, 1] [0, 0]) 2 [] None (\<lambda>k. 0) (\<lambda>k. 0) = Some (cv, \<lambda>k. 0)"
    and len: "length (frv_flows (fcv_variable cv)) = 2"
    and ch: "\<forall>i<2. flow_of_chunk (Tensor [2, 2] [1, 2, 3, 4]) (Tensor [2, 2] [5, 6, 7, 8])
        (Tensor [2, 2] [9, 10, 11, 12]) 2 1 i (frv_flows (fcv_variable cv) ! i)"
    by auto
  from ch have "flow_of_chunk (Tensor [2, 2] [1, 2, 3, 4]) (Tensor [2, 2] [5, 6, 7, 8])
        (Tensor [2, 2] [9, 10, 11, 12]) 2 1 1 (frv_flows (fcv_variable cv) ! 1)"
    by simp
  then have "pf_n_flows (frv_flows (fcv_variable cv) ! 1) = 2
          \<and> elem (pf_w (frv_flows (fcv_variable cv) ! 1)) [0, 0] = 2
          \<and> elem (pf_w (frv_flows (fcv_variable cv) ! 1)) [1, 0] = 4
          \<and> elem (pf_u (frv_flows (fcv_variable cv) ! 1)) [1, 0] = 8
          \<and> elem (pf_b (frv_flows (fcv_variable cv) ! 1)) [0] = 10
          \<and> elem (pf_b (frv_flows (fcv_variable cv) ! 1)) [1] = 12"
    by (simp add: flow_of_chunk_def squeeze_index_def eval_nat_numeral)
       (simp add: elem_def)
  with cv len show ?thesis by auto
qed

section \<open>The chain variables: one algorithm in both regimes\<close>






section \<open>DynaFlowRandomVariable: the chain over the time steps\<close>

lemma slice_block:
  assumes "shape t = [n, W]" "c + m \<le> W"
  shows "\<exists>s. tf_slice t [0, c] [int n, int m] = Some s \<and> shape s = [n, m] \<and>
           (\<forall>r<n. \<forall>k<m. elem s [r, k] = elem t [r, c + k])"
  using assms by (auto simp: tf_slice_def slice_dim_def elem_mk_tensor)

lemma add_log_prob_shape:
  assumes "shape p = [n]" "shape l = (if n = 1 then [] else [n])"
  shows "\<exists>q. tf_add p l = Some q \<and> shape q = [n]"
  using assms by (auto simp: tf_add_def broadcast_op_def broadcast_shape_def)

lemma apply_layers_shapes:
  assumes "list_all (\<lambda>f. flow_shapes f 1 D) fs" "shape s = [n, D]" "shape p = [n]"
  shows "\<exists>s' p'. apply_layers fs s p = Some (s', p') \<and> shape s' = [n, D] \<and> shape p' = [n]"
  using assms
proof (induction fs arbitrary: s p)
  case Nil
  then show ?case by simp
next
  case (Cons f fs)
  from Cons.prems have f: "flow_shapes f 1 D" and fs: "list_all (\<lambda>f. flow_shapes f 1 D) fs"
    by simp_all
  from f have sh: "shape (pf_w f) = [1, D]" "shape (pf_b f) = [1]" "shape (pf_u_bar f) = [1, D]"
    "pf_n_flows f = 1" by (simp_all add: flow_shapes_def)
  obtain l where l: "log_det_jacobian f s = Some l" "shape l = (if n = 1 then [] else [n])"
    using ldj_single [OF sh Cons.prems(2)] by blast
  obtain q where q: "tf_add p l = Some q" "shape q = [n]"
    using add_log_prob_shape [OF Cons.prems(3) l(2)] by blast
  obtain s1 where s1: "PlanarFlow_transform f s = Some s1" "shape s1 = [n, D]"
    using transform_single [OF sh Cons.prems(2)] by blast
  from Cons.IH [OF fs s1(2) q(2)] l q s1 show ?case by simp
qed

lemma locate_uniform:
  "list_all (\<lambda>m. m = d) ns \<Longrightarrow> j < length ns \<Longrightarrow> k < d \<Longrightarrow> locate ns (j * d + k) = (j, k)"
proof (induction ns arbitrary: j)
  case Nil
  then show ?case by simp
next
  case (Cons m ns)
  show ?case
  proof (cases j)
    case 0
    with Cons.prems show ?thesis by simp
  next
    case (Suc j')
    with Cons.prems have "locate ns (j' * d + k) = (j', k)"
      by (intro Cons.IH) simp_all
    with Suc Cons.prems show ?thesis by simp
  qed
qed

lemma tf_concat_Some:
  assumes "ts = t0 # rest" "axis < length (shape t0)"
    "\<not> list_ex (\<lambda>t. (shape t)[axis := 0] \<noteq> (shape t0)[axis := 0]) ts"
  shows "tf_concat ts axis =
     Some (mk_tensor ((shape t0)[axis := sum_list (map (\<lambda>t. shape t ! axis) ts)])
            (\<lambda>idx. case locate (map (\<lambda>t. shape t ! axis) ts) (idx ! axis) of
                     (p, off) \<Rightarrow> elem (ts ! p) (idx[axis := off])))"
  using assms by (simp add: tf_concat_def)

lemma concat_blocks:
  assumes "ts \<noteq> []" "list_all (\<lambda>t. shape t = [n, d]) ts"
  shows "\<exists>c. tf_concat ts 1 = Some c \<and> shape c = [n, length ts * d] \<and>
           (\<forall>j<length ts. \<forall>r<n. \<forall>k<d. elem c [r, j * d + k] = elem (ts ! j) [r, k])"
proof -
  obtain t0 rest where ts: "ts = t0 # rest" using assms(1) by (cases ts) auto
  have sh: "\<And>t. t \<in> set ts \<Longrightarrow> shape t = [n, d]"
    using assms(2) by (simp add: list_all_iff)
  have t0: "shape t0 = [n, d]" using sh ts by simp
  have noex: "\<not> list_ex (\<lambda>t. (shape t)[1 := 0] \<noteq> (shape t0)[1 := 0]) ts"
    using sh t0 by (auto simp: list_ex_iff)
  have sizes: "map (\<lambda>t. shape t ! Suc 0) ts = replicate (length ts) d"
    using sh by (auto simp: map_replicate_const [symmetric] intro!: map_cong)
  let ?c = "mk_tensor [n, length ts * d]
     (\<lambda>idx. case locate (replicate (length ts) d) (idx ! 1) of
              (p, off) \<Rightarrow> elem (ts ! p) (idx[1 := off]))"
  have c: "tf_concat ts 1 = Some ?c"
    using tf_concat_Some [OF ts _ noex] t0 by (simp add: sizes sum_list_replicate)
  have el: "elem ?c [r, j * d + k] = elem (ts ! j) [r, k]"
    if j: "j < length ts" and r: "r < n" and k: "k < d" for j r k
  proof -
    have "j * d + k < j * d + d" using k by simp
    also have "\<dots> = Suc j * d" by simp
    also have "\<dots> \<le> length ts * d" using j by (intro mult_le_mono1) simp
    finally have bound: "j * d + k < length ts * d" .
    have loc: "locate (replicate (length ts) d) (j * d + k) = (j, k)"
      using j k by (intro locate_uniform) (simp_all add: list_all_iff)
    show ?thesis using r bound loc by (simp add: elem_mk_tensor)
  qed
  show ?thesis using c el by (intro exI [of _ ?c]) simp
qed

lemma chain_step:
  assumes samples: "shape samples = [n, d * T]" and t: "Suc t < T"
    and layers: "list_all (\<lambda>f. flow_shapes f 1 (2 * d)) (flows ! t)"
    and st: "chain_state d n samples flows pre0 p0 t = Some (pre, p)"
    and pre: "shape pre = [n, d]" and p: "shape p = [n]"
  shows "\<exists>cur pair pair' p' out pre'.
     tf_slice samples [0, (t + 1) * d] [int n, int d] = Some cur
     \<and> tf_concat [pre, cur] 1 = Some pair
     \<and> apply_layers (flows ! t) pair p = Some (pair', p')
     \<and> tf_slice pair' [0, 0] [int n, int d] = Some out
     \<and> tf_slice pair' [0, d] [int n, int d] = Some pre'
     \<and> shape out = [n, d] \<and> shape pre' = [n, d] \<and> shape p' = [n]
     \<and> transformed_pair d n samples flows pre0 p0 t = Some (pair', p')
     \<and> chain_state d n samples flows pre0 p0 (Suc t) = Some (pre', p')
     \<and> (\<forall>r<n. \<forall>k<d. elem out [r, k] = elem pair' [r, k])
     \<and> (\<forall>r<n. \<forall>k<d. elem pre' [r, k] = elem pair' [r, d + k])"
proof -
  have le: "(t + 1) * d + d \<le> d * T"
  proof -
    have "(t + 1) * d + d = Suc (Suc t) * d" by simp
    also have "\<dots> \<le> T * d" using t by (intro mult_le_mono1) simp
    finally show ?thesis by (simp add: mult.commute)
  qed
  obtain cur where cur: "tf_slice samples [0, (t + 1) * d] [int n, int d] = Some cur"
    "shape cur = [n, d]"
    using slice_block [OF samples le] by blast
  obtain pair where pair: "tf_concat [pre, cur] 1 = Some pair" "shape pair = [n, 2 * d]"
    using concat_blocks [of "[pre, cur]" n d] pre cur(2) by auto
  obtain pair' p' where ap: "apply_layers (flows ! t) pair p = Some (pair', p')"
    "shape pair' = [n, 2 * d]" "shape p' = [n]"
    using apply_layers_shapes [OF layers pair(2) p] by blast
  obtain out where out: "tf_slice pair' [0, 0] [int n, int d] = Some out" "shape out = [n, d]"
    "\<forall>r<n. \<forall>k<d. elem out [r, k] = elem pair' [r, 0 + k]"
    using slice_block [OF ap(2), of 0 d] by auto
  obtain pre' where pre': "tf_slice pair' [0, d] [int n, int d] = Some pre'"
    "shape pre' = [n, d]" "\<forall>r<n. \<forall>k<d. elem pre' [r, k] = elem pair' [r, d + k]"
    using slice_block [OF ap(2), of d d] by auto
  have tp: "transformed_pair d n samples flows pre0 p0 t = Some (pair', p')"
    using st cur(1) pair(1) ap(1) by (simp add: transformed_pair_def)
  have cs: "chain_state d n samples flows pre0 p0 (Suc t) = Some (pre', p')"
    using st cur(1) pair(1) ap(1) pre'(1) by simp
  show ?thesis
    using cur(1) pair(1) ap(1,3) out pre' tp cs by auto
qed

lemma time_loop_spec:
  assumes samples: "shape samples = [n, d * T]" and len: "Suc (length flows) = T"
    and wf: "list_all (list_all (\<lambda>f. flow_shapes f 1 (2 * d))) flows"
  shows "fls = drop k flows \<Longrightarrow> k \<le> length flows \<Longrightarrow>
     chain_state d n samples flows pre0 p0 k = Some (pre, p) \<Longrightarrow>
     shape pre = [n, d] \<Longrightarrow> shape p = [n] \<Longrightarrow>
     \<exists>outs' pre' p'.
        time_loop d n samples (enumerate k fls) outs pre p = Some (outs @ outs', pre', p')
        \<and> chain_state d n samples flows pre0 p0 (length flows) = Some (pre', p')
        \<and> shape pre' = [n, d] \<and> shape p' = [n] \<and> length outs' = length fls
        \<and> (\<forall>j<length fls. shape (outs' ! j) = [n, d] \<and>
              (\<exists>pair q. transformed_pair d n samples flows pre0 p0 (k + j) = Some (pair, q)
                 \<and> (\<forall>r<n. \<forall>c<d. elem (outs' ! j) [r, c] = elem pair [r, c])))"
proof (induction fls arbitrary: k outs pre p)
  case Nil
  then have "k = length flows" by simp
  with Nil show ?case by simp
next
  case (Cons layers rest)
  from Cons.prems(1,2) have k: "k < length flows"
    by (cases "k = length flows") auto
  have nth: "flows ! k = layers" and rest: "rest = drop (Suc k) flows"
    using Cons.prems(1) k by (simp_all add: Cons_nth_drop_Suc [symmetric])
  have layers: "list_all (\<lambda>f. flow_shapes f 1 (2 * d)) (flows ! k)"
    using wf k by (simp add: list_all_length)
  have kT: "Suc k < T" using k len by simp
  from chain_step [OF samples kT layers Cons.prems(3,4,5)]
  obtain cur pair pair' p' out pre' where
    st: "tf_slice samples [0, (k + 1) * d] [int n, int d] = Some cur"
      "tf_concat [pre, cur] 1 = Some pair"
      "apply_layers (flows ! k) pair p = Some (pair', p')"
      "tf_slice pair' [0, 0] [int n, int d] = Some out"
      "tf_slice pair' [0, d] [int n, int d] = Some pre'"
    and sh: "shape out = [n, d]" "shape pre' = [n, d]" "shape p' = [n]"
    and tp: "transformed_pair d n samples flows pre0 p0 k = Some (pair', p')"
    and cs: "chain_state d n samples flows pre0 p0 (Suc k) = Some (pre', p')"
    and el: "\<forall>r<n. \<forall>c<d. elem out [r, c] = elem pair' [r, c]"
    by blast
  from Cons.IH [OF rest _ cs sh(2,3), of "outs @ [out]"] k
  obtain outs' pre'' p'' where
    ih: "time_loop d n samples (enumerate (Suc k) rest) (outs @ [out]) pre' p' =
           Some ((outs @ [out]) @ outs', pre'', p'')"
      "chain_state d n samples flows pre0 p0 (length flows) = Some (pre'', p'')"
      "shape pre'' = [n, d]" "shape p'' = [n]" "length outs' = length rest"
    and ihj: "\<forall>j<length rest. shape (outs' ! j) = [n, d] \<and>
              (\<exists>pair q. transformed_pair d n samples flows pre0 p0 (Suc k + j) = Some (pair, q)
                 \<and> (\<forall>r<n. \<forall>c<d. elem (outs' ! j) [r, c] = elem pair [r, c]))"
    by auto
  have run: "time_loop d n samples (enumerate k (layers # rest)) outs pre p =
      Some (outs @ (out # outs'), pre'', p'')"
    using st ih(1) nth by (simp add: enumerate_simps)
  have each: "shape ((out # outs') ! j) = [n, d] \<and>
              (\<exists>pair q. transformed_pair d n samples flows pre0 p0 (k + j) = Some (pair, q)
                 \<and> (\<forall>r<n. \<forall>c<d. elem ((out # outs') ! j) [r, c] = elem pair [r, c]))"
    if "j < length (layers # rest)" for j
  proof (cases j)
    case 0
    then show ?thesis using sh(1) tp el by simp
  next
    case (Suc j')
    with that have "j' < length rest" by simp
    with ihj Suc show ?thesis by simp
  qed
  show ?case
    using run ih(2,3,4,5) each
    by (intro exI [of _ "out # outs'"] exI [of _ pre''] exI [of _ p'']) simp
qed

lemma PlanarFlow_init_random:
  "\<exists>pf g'. PlanarFlow_init (DimInt D) None None None g = Some (pf, g') \<and> flow_shapes pf 1 D"
proof -
  obtain w b u g3 where cf: "create_flow_variables (DimInt D) g = Some ((w, b, u), g3)"
    and sh: "shape w = [1, D]" "shape b = [1]" "shape u = [1, D]"
    by (simp add: create_flow_variables_def np_random_normal_def)
  obtain ub where ub: "reversible_constraint w u = Some ub" "shape ub = [1, D]"
    using reversible_constraint_elem [OF sh(1,3)] by blast
  show ?thesis
    using cf sh ub by (simp add: PlanarFlow_init_def flow_shapes_def)
qed

lemma create_flows_shapes:
  "\<exists>fs g'. create_flows k D g = Some (fs, g') \<and> length fs = k \<and>
            list_all (\<lambda>f. flow_shapes f 1 D) fs"
proof (induction k arbitrary: g)
  case 0
  show ?case by simp
next
  case (Suc k)
  obtain pf g1 where pf: "PlanarFlow_init (DimInt D) None None None g = Some (pf, g1)"
    "flow_shapes pf 1 D"
    using PlanarFlow_init_random by blast
  obtain fs g2 where fs: "create_flows k D g1 = Some (fs, g2)" "length fs = k"
    "list_all (\<lambda>f. flow_shapes f 1 D) fs"
    using Suc.IH by blast
  show ?case using pf fs by simp
qed

lemma setup_flow_layers_shapes:
  "\<exists>fl g'. setup_flow_layers t num_layers d g = Some (fl, g') \<and> length fl = t \<and>
            list_all (list_all (\<lambda>f. flow_shapes f 1 (2 * d))) fl"
proof (induction t arbitrary: g)
  case 0
  show ?case by simp
next
  case (Suc t)
  obtain fs g1 where fs: "create_flows num_layers (2 * d) g = Some (fs, g1)"
    "list_all (\<lambda>f. flow_shapes f 1 (2 * d)) fs"
    using create_flows_shapes by blast
  obtain fl g2 where fl: "setup_flow_layers t num_layers d g1 = Some (fl, g2)" "length fl = t"
    "list_all (list_all (\<lambda>f. flow_shapes f 1 (2 * d))) fl"
    using Suc.IH by blast
  show ?case using fs fl by simp
qed

lemma DynaFlowRandomVariable_init_fields:
  assumes "DynaFlowRandomVariable_init d T num_layers (Some bd) tg g = Some (rv, g')"
  shows "dfr_dim rv = d" "dfr_n_time rv = T" "dfr_base_dist rv = bd"
    "length (dfr_flows rv) = T - 1"
    "list_all (list_all (\<lambda>f. flow_shapes f 1 (2 * d))) (dfr_flows rv)"
  using assms setup_flow_layers_shapes [of "T - 1" num_layers d g]
  by (auto simp: DynaFlowRandomVariable_init_def)

lemma chain_state_Suc:
  "chain_state d n samples flows pre0 p0 (Suc t) = do {
     (pair, q) \<leftarrow> transformed_pair d n samples flows pre0 p0 t;
     pre' \<leftarrow> tf_slice pair [0, d] [int n, int d];
     Some (pre', q)
   }"
  by (simp add: transformed_pair_def split: bind_splits)

lemma reduce_sum_features:
  assumes "shape l = [n, W]"
  shows "\<exists>p0. tf_reduce_sum l 1 False = Some p0 \<and> shape p0 = [n]"
  using assms by (simp add: tf_reduce_sum_def)

lemma chain_state_continuity:
  assumes "transformed_pair d n samples flows pre0 p0 t = Some (pair, q)"
    and "chain_state d n samples flows pre0 p0 (Suc t) = Some (pre', q')"
  shows "tf_slice pair [0, d] [int n, int d] = Some pre' \<and> q' = q"
proof -
  from assms(2) have "do {
     (pair, q) \<leftarrow> transformed_pair d n samples flows pre0 p0 t;
     pre' \<leftarrow> tf_slice pair [0, d] [int n, int d];
     Some (pre', q)
   } = Some (pre', q')"
    by (simp only: chain_state_Suc)
  then show ?thesis
    by (auto simp add: assms(1) split: bind_splits)
qed

lemma chain_state_earlier:
  "chain_state d n samples flows pre0 p0 (k + m) = Some st \<Longrightarrow>
   \<exists>st'. chain_state d n samples flows pre0 p0 k = Some st'"
  by (induction m arbitrary: st) (auto split: bind_splits)

text \<open>
  C5. For a constructed \<open>DynaFlowRandomVariable\<close> with \<open>T \<ge> 1\<close> time steps whose base
  distribution draws samples of shape \<open>[n, dim * T]\<close>, \<open>sample_log_prob\<close> succeeds and its
  output has shape \<open>[n, dim * T]\<close>. Column block \<open>t < T - 1\<close> of the output is the first half
  of the transformed pair of index \<open>t\<close>; the second half of that pair is, as it is, the
  \<open>pre_latent\<close> that index \<open>t + 1\<close> consumes; and the last column block is the
  \<open>pre_latent\<close> carried out of the last pair, with the log-density accumulated on the way.
\<close>

theorem chain_continuity:
  assumes init: "DynaFlowRandomVariable_init d T num_layers (Some (Distribution smp lp)) tg g
                   = Some (rv, g')"
    and T: "1 \<le> T"
    and smp: "smp [n] = Some samples" "shape samples = [n, d * T]"
    and lp: "lp samples = Some l" "shape l = [n, d * T]"
  shows "\<exists>p0 pre0 final p pre_last.
      tf_reduce_sum l 1 False = Some p0
    \<and> tf_slice samples [0, 0] [int n, int d] = Some pre0
    \<and> DynaFlowRandomVariable_sample_log_prob rv n = Some (final, p)
    \<and> shape final = [n, d * T]
    \<and> chain_state d n samples (dfr_flows rv) pre0 p0 (T - 1) = Some (pre_last, p)
    \<and> (\<forall>t<T - 1. \<exists>pair q pre'.
           transformed_pair d n samples (dfr_flows rv) pre0 p0 t = Some (pair, q)
         \<and> tf_slice pair [0, d] [int n, int d] = Some pre'
         \<and> chain_state d n samples (dfr_flows rv) pre0 p0 (Suc t) = Some (pre', q)
         \<and> (\<forall>r<n. \<forall>k<d. elem final [r, t * d + k] = elem pair [r, k]))
    \<and> (\<forall>r<n. \<forall>k<d. elem final [r, (T - 1) * d + k] = elem pre_last [r, k])"
proof -
  let ?flows = "dfr_flows rv"
  note f = DynaFlowRandomVariable_init_fields [OF init]
  have len: "Suc (length ?flows) = T" using f(4) T by simp
  obtain p0 where p0: "tf_reduce_sum l 1 False = Some p0" "shape p0 = [n]"
    using reduce_sum_features [OF lp(2)] by blast
  have "0 + d \<le> d * T" using T by (cases T) simp_all
  from slice_block [OF smp(2) this]
  obtain pre0 where pre0: "tf_slice samples [0, 0] [int n, int d] = Some pre0"
    "shape pre0 = [n, d]" by blast
  have cs0: "chain_state d n samples ?flows pre0 p0 0 = Some (pre0, p0)" by simp
  from time_loop_spec [OF smp(2) len f(5) _ _ cs0 pre0(2) p0(2), of ?flows "[]"]
  obtain outs pre_last p where
    run: "time_loop d n samples (enumerate 0 ?flows) [] pre0 p0 = Some (outs, pre_last, p)"
    and last: "chain_state d n samples ?flows pre0 p0 (length ?flows) = Some (pre_last, p)"
    and sh: "shape pre_last = [n, d]" "length outs = length ?flows"
    and each: "\<forall>j<length ?flows. shape (outs ! j) = [n, d] \<and>
        (\<exists>pair q. transformed_pair d n samples ?flows pre0 p0 j = Some (pair, q)
           \<and> (\<forall>r<n. \<forall>c<d. elem (outs ! j) [r, c] = elem pair [r, c]))"
    by auto
  have all_sh: "list_all (\<lambda>t. shape t = [n, d]) (outs @ [pre_last])"
    using each sh by (auto simp add: list_all_length nth_append less_Suc_eq)
  from concat_blocks [OF _ all_sh]
  obtain final where final: "tf_concat (outs @ [pre_last]) 1 = Some final"
    "shape final = [n, length (outs @ [pre_last]) * d]"
    and blocks: "\<forall>j<length (outs @ [pre_last]). \<forall>r<n. \<forall>k<d.
        elem final [r, j * d + k] = elem ((outs @ [pre_last]) ! j) [r, k]"
    by auto
  have width: "shape final = [n, d * T]"
    using final(2) sh(2) len by (simp add: mult.commute)
  have slp: "DynaFlowRandomVariable_sample_log_prob rv n = Some (final, p)"
    using f(1,3) smp(1) lp(1) p0(1) pre0(1) run final(1)
    by (simp add: DynaFlowRandomVariable_sample_log_prob_def)
  have Tm: "T - 1 = length ?flows" using len by simp
  have steps: "\<exists>pair q pre'.
           transformed_pair d n samples ?flows pre0 p0 t = Some (pair, q)
         \<and> tf_slice pair [0, d] [int n, int d] = Some pre'
         \<and> chain_state d n samples ?flows pre0 p0 (Suc t) = Some (pre', q)
         \<and> (\<forall>r<n. \<forall>k<d. elem final [r, t * d + k] = elem pair [r, k])"
    if t: "t < length ?flows" for t
  proof -
    from each t obtain pair q where
      tp: "transformed_pair d n samples ?flows pre0 p0 t = Some (pair, q)"
      and el: "\<forall>r<n. \<forall>c<d. elem (outs ! t) [r, c] = elem pair [r, c]" by blast
    have "\<exists>m. length ?flows = Suc t + m" using t by (intro exI [of _ "length ?flows - Suc t"]) simp
    then obtain m where m: "length ?flows = Suc t + m" ..
    from chain_state_earlier [of d n samples ?flows pre0 p0 "Suc t" m] last m
    obtain pre' q' where cs: "chain_state d n samples ?flows pre0 p0 (Suc t) = Some (pre', q')"
      by auto
    from chain_state_continuity [OF tp cs]
    have sl: "tf_slice pair [0, d] [int n, int d] = Some pre'" and q: "q' = q" by simp_all
    have "\<forall>r<n. \<forall>k<d. elem final [r, t * d + k] = elem pair [r, k]"
      using blocks t sh(2) el by (simp add: nth_append)
    with tp sl cs q show ?thesis by blast
  qed
  have lastblock: "\<forall>r<n. \<forall>k<d. elem final [r, (T - 1) * d + k] = elem pre_last [r, k]"
    using blocks sh(2) Tm by (simp add: nth_append)
  show ?thesis
    using p0(1) pre0(1) slp width last steps lastblock unfolding Tm by blast
qed

lemma DynaFlowRandomVariable_init_total:
  "\<exists>rv g'. DynaFlowRandomVariable_init d T num_layers bd tg g = Some (rv, g')"
  using setup_flow_layers_shapes [of "T - 1" num_layers d g]
  by (auto simp: DynaFlowRandomVariable_init_def)

theorem chain_continuity_witness:
  "\<exists>rv g'. DynaFlowRandomVariable_init 1 2 1
              (Some (Distribution (\<lambda>s. Some (Tensor [1, 2] [3, 4])) (\<lambda>x. Some x)))
              (\<lambda>k. 1) (\<lambda>k. 1) = Some (rv, g')
     \<and> (1::nat) \<le> 2
     \<and> shape (Tensor [1, 2] [3, 4]) = [1, 1 * 2]
     \<and> (\<exists>final p. DynaFlowRandomVariable_sample_log_prob rv 1 = Some (final, p)
            \<and> shape final = [1, 1 * 2])"
proof -
  obtain rv g' where init: "DynaFlowRandomVariable_init 1 2 1
              (Some (Distribution (\<lambda>s. Some (Tensor [1, 2] [3, 4])) (\<lambda>x. Some x)))
              (\<lambda>k. 1) (\<lambda>k. 1) = Some (rv, g')"
    using DynaFlowRandomVariable_init_total by blast
  have "\<exists>final p. DynaFlowRandomVariable_sample_log_prob rv 1 = Some (final, p)
            \<and> shape final = [1, 1 * 2]"
    using chain_continuity [OF init, where n = 1 and samples = "Tensor [1, 2] [3, 4]"
        and l = "Tensor [1, 2] [3, 4]"]
    by auto
  with init show ?thesis by auto
qed

end
